theory Spec2Isabelle
  imports Main
begin

section \<open>The ethernet interface namespace of pango (netw/eth/eth.go)\<close>

text \<open>
  A shallow embedding of \<^verbatim>\<open>src/vendor/github.com/PaloAltoNetworks/pango/netw/eth/eth.go\<close>.

  Go's \<^verbatim>\<open>string\<close> is \<^typ>\<open>string\<close>, Go's \<^verbatim>\<open>int\<close> is \<^typ>\<open>int\<close> (the code only
  copies these numbers and compares them with zero, it never does arithmetic on them),
  a slice \<^verbatim>\<open>[]string\<close> is a \<^typ>\<open>string list\<close> (the code never tells a nil slice from
  an empty one) and a nullable pointer is an \<^typ>\<open>'a option\<close>.  The unexported map
  \<^verbatim>\<open>raw map[string] string\<close> is an optional partial function: \<open>None\<close> is the nil
  map, \<open>Some m\<close> an allocated one; the code itself tells the two apart when it resets an
  empty map to nil at the end of \<^verbatim>\<open>Normalize\<close>.
\<close>

subsection \<open>The normalized object\<close>

record Entry =
  Name :: string
  Mode :: string
  StaticIps :: "string list"
  EnableDhcp :: bool
  CreateDhcpDefaultRoute :: bool
  DhcpDefaultRouteMetric :: int
  Ipv6Enabled :: bool
  ManagementProfile :: string
  Mtu :: int
  AdjustTcpMss :: bool
  NetflowProfile :: string
  LldpEnabled :: bool
  LldpProfile :: string
  LinkSpeed :: string
  LinkDuplex :: string
  LinkState :: string
  AggregateGroup :: string
  Comment :: string
  Ipv4MssAdjust :: int
  Ipv6MssAdjust :: int
  raw :: "(string \<rightharpoonup> string) option"

text \<open>The zero value \<^verbatim>\<open>Entry{}\<close>.\<close>

definition Entry_zero :: Entry where
  "Entry_zero = \<lparr>Name = [], Mode = [], StaticIps = [], EnableDhcp = False,
     CreateDhcpDefaultRoute = False, DhcpDefaultRouteMetric = 0, Ipv6Enabled = False,
     ManagementProfile = [], Mtu = 0, AdjustTcpMss = False, NetflowProfile = [],
     LldpEnabled = False, LldpProfile = [], LinkSpeed = [], LinkDuplex = [],
     LinkState = [], AggregateGroup = [], Comment = [], Ipv4MssAdjust = 0,
     Ipv6MssAdjust = 0, raw = None\<rparr>"

text \<open>
  Reading a Go map: a nil map has no keys (\<^verbatim>\<open>text, present := e.raw[k]\<close> gives
  \<^verbatim>\<open>present == false\<close>).
\<close>

definition raw_lookup :: "(string \<rightharpoonup> string) option \<Rightarrow> string \<Rightarrow> string option" where
  "raw_lookup r k = (case r of None \<Rightarrow> None | Some m \<Rightarrow> m k)"

text \<open>
  \<^verbatim>\<open>func (o *Entry) Copy(s Entry)\<close>: nineteen assignments, in the order of the source.
  The receiver is a pointer, so the model returns the updated receiver.
\<close>

definition Copy :: "Entry \<Rightarrow> Entry \<Rightarrow> Entry" where
  "Copy obj s = obj\<lparr>
     Mode := Mode s,
     StaticIps := StaticIps s,
     EnableDhcp := EnableDhcp s,
     CreateDhcpDefaultRoute := CreateDhcpDefaultRoute s,
     DhcpDefaultRouteMetric := DhcpDefaultRouteMetric s,
     Ipv6Enabled := Ipv6Enabled s,
     ManagementProfile := ManagementProfile s,
     Mtu := Mtu s,
     AdjustTcpMss := AdjustTcpMss s,
     NetflowProfile := NetflowProfile s,
     LldpEnabled := LldpEnabled s,
     LldpProfile := LldpProfile s,
     LinkSpeed := LinkSpeed s,
     LinkDuplex := LinkDuplex s,
     LinkState := LinkState s,
     AggregateGroup := AggregateGroup s,
     Comment := Comment s,
     Ipv4MssAdjust := Ipv4MssAdjust s,
     Ipv6MssAdjust := Ipv6MssAdjust s\<rparr>"

subsection \<open>Helpers of package util\<close>

text \<open>
  \<^verbatim>\<open>eth.go\<close> calls six helpers of the package \<^verbatim>\<open>pango/util\<close>, whose source is not part
  of the files under verification.  They are parameters of the model: every definition
  below that calls one of them takes the record \<open>u\<close> of the six functions, and every
  theorem holds for all such records, under the laws it names.  The type
  \<^verbatim>\<open>*util.EntryType\<close> is declared in the same package and is the type variable
  \<open>'ent\<close>.  \<^verbatim>\<open>*util.RawXml\<close> is used by \<^verbatim>\<open>eth.go\<close> as a nullable pointer to a struct with
  the single field \<^verbatim>\<open>Text\<close>, so it is a \<^typ>\<open>string option\<close>.
\<close>

record 'ent util =
  AsBool :: "string \<Rightarrow> bool"
  YesNo :: "bool \<Rightarrow> string"
  EntToStr :: "'ent \<Rightarrow> string list"
  StrToEnt :: "string list \<Rightarrow> 'ent"
  CleanRawXml :: "string \<Rightarrow> string"
  AsEntryXpath :: "string list \<Rightarrow> string"

subsection \<open>Wire formats\<close>

text \<open>
  The structs that \<^verbatim>\<open>encoding/xml\<close> reads and writes.  The field \<^verbatim>\<open>XMLName\<close> of the two
  entry structs is never assigned or read by \<^verbatim>\<open>eth.go\<close> and is left out.
  \<^verbatim>\<open>*emptyMode\<close> is a pointer to the empty struct: \<^typ>\<open>unit option\<close>.
\<close>

record otherMode =
  om_LldpEnabled :: string
  om_LldpProfile :: string
  om_NetflowProfile :: string
  om_Subinterface :: "string option"

record ipv6 =
  Enabled :: string
  Address :: "string option"

record dhcpSettings =
  Enable :: string
  CreateDefaultRoute :: string
  Metric :: int

record 'ent l3Mode_v1 =
  l3v1_Ipv6 :: ipv6
  l3v1_ManagementProfile :: string
  l3v1_Mtu :: int
  l3v1_NetflowProfile :: string
  l3v1_AdjustTcpMss :: string
  l3v1_StaticIps :: 'ent
  l3v1_Dhcp :: "dhcpSettings option"
  l3v1_Arp :: "string option"
  l3v1_Subinterface :: "string option"

record 'ent entry_v1 =
  v1_Name :: string
  v1_ModeL2 :: "otherMode option"
  v1_ModeL3 :: "'ent l3Mode_v1 option"
  v1_ModeVwire :: "otherMode option"
  v1_TapMode :: "unit option"
  v1_HaMode :: "unit option"
  v1_DecryptMirrorMode :: "unit option"
  v1_AggregateGroupMode :: "unit option"
  v1_LinkSpeed :: string
  v1_LinkDuplex :: string
  v1_LinkState :: string
  v1_Comment :: string

record 'ent container_v1 =
  Answer_v1 :: "'ent entry_v1"

record 'ent l3Mode_v2 =
  l3v2_Ipv6 :: ipv6
  l3v2_ManagementProfile :: string
  l3v2_Mtu :: int
  l3v2_NetflowProfile :: string
  l3v2_AdjustTcpMss :: string
  l3v2_Ipv4MssAdjust :: int
  l3v2_Ipv6MssAdjust :: int
  l3v2_StaticIps :: 'ent
  l3v2_Dhcp :: "dhcpSettings option"
  l3v2_Arp :: "string option"
  l3v2_Subinterface :: "string option"

record 'ent entry_v2 =
  v2_Name :: string
  v2_ModeL3 :: "'ent l3Mode_v2 option"
  v2_ModeL2 :: "otherMode option"
  v2_ModeVwire :: "otherMode option"
  v2_TapMode :: "unit option"
  v2_HaMode :: "unit option"
  v2_DecryptMirrorMode :: "unit option"
  v2_AggregateGroupMode :: "unit option"
  v2_LinkSpeed :: string
  v2_LinkDuplex :: string
  v2_LinkState :: string
  v2_Comment :: string

record 'ent container_v2 =
  Answer_v2 :: "'ent entry_v2"

text \<open>
  Writing and measuring the map \<^verbatim>\<open>ans.raw\<close>.  A store into a nil map panics in Go;
  \<^verbatim>\<open>Normalize\<close> only stores into the map it has just made, so that branch is never
  taken and the model leaves the nil map as it is.
\<close>

definition raw_store ::
  "(string \<rightharpoonup> string) option \<Rightarrow> string \<Rightarrow> string \<Rightarrow> (string \<rightharpoonup> string) option" where
  "raw_store r k v = (case r of None \<Rightarrow> None | Some m \<Rightarrow> Some (m(k \<mapsto> v)))"

definition raw_len_is_0 :: "(string \<rightharpoonup> string) option \<Rightarrow> bool" where
  "raw_len_is_0 r = (case r of None \<Rightarrow> True | Some m \<Rightarrow> m = Map.empty)"

subsection \<open>Normalize\<close>

text \<open>
  \<^verbatim>\<open>func (o *container_v1) Normalize() Entry\<close>.  The composite literal sets five fields
  and leaves the others zero; the \<^verbatim>\<open>switch\<close> without a tag takes the first case whose
  condition holds, and none when all seven pointers are nil.
\<close>

definition Normalize_v1 :: "'ent util \<Rightarrow> 'ent container_v1 \<Rightarrow> Entry" where
  "Normalize_v1 u c =
    (let a = Answer_v1 c;
         ans = Entry_zero\<lparr>Name := v1_Name a, LinkSpeed := v1_LinkSpeed a,
                 LinkDuplex := v1_LinkDuplex a, LinkState := v1_LinkState a,
                 Comment := v1_Comment a\<rparr>;
         ans = ans\<lparr>raw := Some Map.empty\<rparr>;
         ans =
          (case v1_ModeL3 a of
             Some l3 \<Rightarrow>
               (let ans = ans\<lparr>Mode := ''layer3''\<rparr>;
                    ans = ans\<lparr>Ipv6Enabled := AsBool u (Enabled (l3v1_Ipv6 l3))\<rparr>;
                    ans = ans\<lparr>ManagementProfile := l3v1_ManagementProfile l3\<rparr>;
                    ans = ans\<lparr>Mtu := l3v1_Mtu l3\<rparr>;
                    ans = ans\<lparr>NetflowProfile := l3v1_NetflowProfile l3\<rparr>;
                    ans = ans\<lparr>AdjustTcpMss := AsBool u (l3v1_AdjustTcpMss l3)\<rparr>;
                    ans = ans\<lparr>StaticIps := EntToStr u (l3v1_StaticIps l3)\<rparr>;
                    ans = (case l3v1_Dhcp l3 of
                             Some d \<Rightarrow>
                               ans\<lparr>EnableDhcp := AsBool u (Enable d),
                                   CreateDhcpDefaultRoute := AsBool u (CreateDefaultRoute d),
                                   DhcpDefaultRouteMetric := Metric d\<rparr>
                           | None \<Rightarrow> ans);
                    ans = (case l3v1_Arp l3 of
                             Some text \<Rightarrow>
                               ans\<lparr>raw := raw_store (raw ans) ''arp'' (CleanRawXml u text)\<rparr>
                           | None \<Rightarrow> ans);
                    ans = (case l3v1_Subinterface l3 of
                             Some text \<Rightarrow>
                               ans\<lparr>raw := raw_store (raw ans) ''l3subinterface''
                                             (CleanRawXml u text)\<rparr>
                           | None \<Rightarrow> ans);
                    ans = (case Address (l3v1_Ipv6 l3) of
                             Some text \<Rightarrow>
                               ans\<lparr>raw := raw_store (raw ans) ''ipv6'' (CleanRawXml u text)\<rparr>
                           | None \<Rightarrow> ans)
                in ans)
           | None \<Rightarrow>
          (case v1_ModeL2 a of
             Some l2 \<Rightarrow>
               (let ans = ans\<lparr>Mode := ''layer2''\<rparr>;
                    ans = ans\<lparr>LldpEnabled := AsBool u (om_LldpEnabled l2)\<rparr>;
                    ans = ans\<lparr>LldpProfile := om_LldpProfile l2\<rparr>;
                    ans = ans\<lparr>NetflowProfile := om_NetflowProfile l2\<rparr>;
                    ans = (case om_Subinterface l2 of
                             Some text \<Rightarrow>
                               ans\<lparr>raw := raw_store (raw ans) ''l2subinterface''
                                             (CleanRawXml u text)\<rparr>
                           | None \<Rightarrow> ans)
                in ans)
           | None \<Rightarrow>
          (case v1_ModeVwire a of
             Some vw \<Rightarrow>
               (let ans = ans\<lparr>Mode := ''virtual-wire''\<rparr>;
                    ans = ans\<lparr>LldpEnabled := AsBool u (om_LldpEnabled vw)\<rparr>;
                    ans = ans\<lparr>LldpProfile := om_LldpProfile vw\<rparr>;
                    ans = ans\<lparr>NetflowProfile := om_NetflowProfile vw\<rparr>
                in ans)
           | None \<Rightarrow>
          (case v1_TapMode a of
             Some _ \<Rightarrow> ans\<lparr>Mode := ''tap''\<rparr>
           | None \<Rightarrow>
          (case v1_HaMode a of
             Some _ \<Rightarrow> ans\<lparr>Mode := ''ha''\<rparr>
           | None \<Rightarrow>
          (case v1_DecryptMirrorMode a of
             Some _ \<Rightarrow> ans\<lparr>Mode := ''decrypt-mirror''\<rparr>
           | None \<Rightarrow>
          (case v1_AggregateGroupMode a of
             Some _ \<Rightarrow> ans\<lparr>Mode := ''aggregate-group''\<rparr>
           | None \<Rightarrow> ans)))))))
     in if raw_len_is_0 (raw ans) then ans\<lparr>raw := None\<rparr> else ans)"

text \<open>
  \<^verbatim>\<open>func (o *container_v2) Normalize() Entry\<close>: as for version 1, and the layer3 case
  also reads the two MSS adjustments.
\<close>

definition Normalize_v2 :: "'ent util \<Rightarrow> 'ent container_v2 \<Rightarrow> Entry" where
  "Normalize_v2 u c =
    (let a = Answer_v2 c;
         ans = Entry_zero\<lparr>Name := v2_Name a, LinkSpeed := v2_LinkSpeed a,
                 LinkDuplex := v2_LinkDuplex a, LinkState := v2_LinkState a,
                 Comment := v2_Comment a\<rparr>;
         ans = ans\<lparr>raw := Some Map.empty\<rparr>;
         ans =
          (case v2_ModeL3 a of
             Some l3 \<Rightarrow>
               (let ans = ans\<lparr>Mode := ''layer3''\<rparr>;
                    ans = ans\<lparr>Ipv6Enabled := AsBool u (Enabled (l3v2_Ipv6 l3))\<rparr>;
                    ans = ans\<lparr>ManagementProfile := l3v2_ManagementProfile l3\<rparr>;
                    ans = ans\<lparr>Mtu := l3v2_Mtu l3\<rparr>;
                    ans = ans\<lparr>NetflowProfile := l3v2_NetflowProfile l3\<rparr>;
                    ans = ans\<lparr>AdjustTcpMss := AsBool u (l3v2_AdjustTcpMss l3)\<rparr>;
                    ans = ans\<lparr>Ipv4MssAdjust := l3v2_Ipv4MssAdjust l3\<rparr>;
                    ans = ans\<lparr>Ipv6MssAdjust := l3v2_Ipv6MssAdjust l3\<rparr>;
                    ans = ans\<lparr>StaticIps := EntToStr u (l3v2_StaticIps l3)\<rparr>;
                    ans = (case l3v2_Dhcp l3 of
                             Some d \<Rightarrow>
                               ans\<lparr>EnableDhcp := AsBool u (Enable d),
                                   CreateDhcpDefaultRoute := AsBool u (CreateDefaultRoute d),
                                   DhcpDefaultRouteMetric := Metric d\<rparr>
                           | None \<Rightarrow> ans);
                    ans = (case l3v2_Arp l3 of
                             Some text \<Rightarrow>
                               ans\<lparr>raw := raw_store (raw ans) ''arp'' (CleanRawXml u text)\<rparr>
                           | None \<Rightarrow> ans);
                    ans = (case l3v2_Subinterface l3 of
                             Some text \<Rightarrow>
                               ans\<lparr>raw := raw_store (raw ans) ''l3subinterface''
                                             (CleanRawXml u text)\<rparr>
                           | None \<Rightarrow> ans);
                    ans = (case Address (l3v2_Ipv6 l3) of
                             Some text \<Rightarrow>
                               ans\<lparr>raw := raw_store (raw ans) ''ipv6'' (CleanRawXml u text)\<rparr>
                           | None \<Rightarrow> ans)
                in ans)
           | None \<Rightarrow>
          (case v2_ModeL2 a of
             Some l2 \<Rightarrow>
               (let ans = ans\<lparr>Mode := ''layer2''\<rparr>;
                    ans = ans\<lparr>LldpEnabled := AsBool u (om_LldpEnabled l2)\<rparr>;
                    ans = ans\<lparr>LldpProfile := om_LldpProfile l2\<rparr>;
                    ans = ans\<lparr>NetflowProfile := om_NetflowProfile l2\<rparr>;
                    ans = (case om_Subinterface l2 of
                             Some text \<Rightarrow>
                               ans\<lparr>raw := raw_store (raw ans) ''l2subinterface''
                                             (CleanRawXml u text)\<rparr>
                           | None \<Rightarrow> ans)
                in ans)
           | None \<Rightarrow>
          (case v2_ModeVwire a of
             Some vw \<Rightarrow>
               (let ans = ans\<lparr>Mode := ''virtual-wire''\<rparr>;
                    ans = ans\<lparr>LldpEnabled := AsBool u (om_LldpEnabled vw)\<rparr>;
                    ans = ans\<lparr>LldpProfile := om_LldpProfile vw\<rparr>;
                    ans = ans\<lparr>NetflowProfile := om_NetflowProfile vw\<rparr>
                in ans)
           | None \<Rightarrow>
          (case v2_TapMode a of
             Some _ \<Rightarrow> ans\<lparr>Mode := ''tap''\<rparr>
           | None \<Rightarrow>
          (case v2_HaMode a of
             Some _ \<Rightarrow> ans\<lparr>Mode := ''ha''\<rparr>
           | None \<Rightarrow>
          (case v2_DecryptMirrorMode a of
             Some _ \<Rightarrow> ans\<lparr>Mode := ''decrypt-mirror''\<rparr>
           | None \<Rightarrow>
          (case v2_AggregateGroupMode a of
             Some _ \<Rightarrow> ans\<lparr>Mode := ''aggregate-group''\<rparr>
           | None \<Rightarrow> ans)))))))
     in if raw_len_is_0 (raw ans) then ans\<lparr>raw := None\<rparr> else ans)"

subsection \<open>Specify\<close>

text \<open>
  The zero values of the two entry structs, as the composite literals of \<^verbatim>\<open>specify_v1\<close>
  and \<^verbatim>\<open>specify_v2\<close> leave the fields they do not name.
\<close>

definition ipv6_zero :: ipv6 where
  "ipv6_zero = \<lparr>Enabled = [], Address = None\<rparr>"

definition entry_v1_zero :: "'ent entry_v1" where
  "entry_v1_zero = \<lparr>v1_Name = [], v1_ModeL2 = None, v1_ModeL3 = None, v1_ModeVwire = None,
     v1_TapMode = None, v1_HaMode = None, v1_DecryptMirrorMode = None,
     v1_AggregateGroupMode = None, v1_LinkSpeed = [], v1_LinkDuplex = [],
     v1_LinkState = [], v1_Comment = []\<rparr>"

definition entry_v2_zero :: "'ent entry_v2" where
  "entry_v2_zero = \<lparr>v2_Name = [], v2_ModeL3 = None, v2_ModeL2 = None, v2_ModeVwire = None,
     v2_TapMode = None, v2_HaMode = None, v2_DecryptMirrorMode = None,
     v2_AggregateGroupMode = None, v2_LinkSpeed = [], v2_LinkDuplex = [],
     v2_LinkState = [], v2_Comment = []\<rparr>"

text \<open>
  \<^verbatim>\<open>func specify_v1(e Entry) interface{}\<close>.  The \<^verbatim>\<open>switch e.Mode\<close> compares the tag with
  seven string constants and has no default case.
\<close>

definition specify_v1 :: "'ent util \<Rightarrow> Entry \<Rightarrow> 'ent entry_v1" where
  "specify_v1 u e =
    (let ans = entry_v1_zero\<lparr>v1_Name := Name e, v1_LinkSpeed := LinkSpeed e,
                 v1_LinkDuplex := LinkDuplex e, v1_LinkState := LinkState e,
                 v1_Comment := Comment e\<rparr>
     in
       if Mode e = ''layer3'' then
         (let i = \<lparr>l3v1_Ipv6 = ipv6_zero,
                    l3v1_ManagementProfile = ManagementProfile e,
                    l3v1_Mtu = Mtu e,
                    l3v1_NetflowProfile = NetflowProfile e,
                    l3v1_AdjustTcpMss = YesNo u (AdjustTcpMss e),
                    l3v1_StaticIps = StrToEnt u (StaticIps e),
                    l3v1_Dhcp = None, l3v1_Arp = None, l3v1_Subinterface = None\<rparr>;
              i = i\<lparr>l3v1_Ipv6 := (l3v1_Ipv6 i)\<lparr>Enabled := YesNo u (Ipv6Enabled e)\<rparr>\<rparr>;
              i = (if EnableDhcp e \<or> CreateDhcpDefaultRoute e \<or> DhcpDefaultRouteMetric e \<noteq> 0
                   then i\<lparr>l3v1_Dhcp := Some \<lparr>Enable = YesNo u (EnableDhcp e),
                          CreateDefaultRoute = YesNo u (CreateDhcpDefaultRoute e),
                          Metric = DhcpDefaultRouteMetric e\<rparr>\<rparr>
                   else i);
              i = (case raw_lookup (raw e) ''arp'' of
                     Some text \<Rightarrow> i\<lparr>l3v1_Arp := Some text\<rparr> | None \<Rightarrow> i);
              i = (case raw_lookup (raw e) ''l3subinterface'' of
                     Some text \<Rightarrow> i\<lparr>l3v1_Subinterface := Some text\<rparr> | None \<Rightarrow> i);
              i = (case raw_lookup (raw e) ''ipv6'' of
                     Some text \<Rightarrow> i\<lparr>l3v1_Ipv6 := (l3v1_Ipv6 i)\<lparr>Address := Some text\<rparr>\<rparr>
                   | None \<Rightarrow> i)
          in ans\<lparr>v1_ModeL3 := Some i\<rparr>)
       else if Mode e = ''layer2'' then
         (let i = \<lparr>om_LldpEnabled = YesNo u (LldpEnabled e),
                    om_LldpProfile = LldpProfile e,
                    om_NetflowProfile = NetflowProfile e,
                    om_Subinterface = None\<rparr>;
              i = (case raw_lookup (raw e) ''l2subinterface'' of
                     Some text \<Rightarrow> i\<lparr>om_Subinterface := Some text\<rparr> | None \<Rightarrow> i)
          in ans\<lparr>v1_ModeL2 := Some i\<rparr>)
       else if Mode e = ''virtual-wire'' then
         (let i = \<lparr>om_LldpEnabled = YesNo u (LldpEnabled e),
                    om_LldpProfile = LldpProfile e,
                    om_NetflowProfile = NetflowProfile e,
                    om_Subinterface = None\<rparr>
          in ans\<lparr>v1_ModeVwire := Some i\<rparr>)
       else if Mode e = ''tap'' then ans\<lparr>v1_TapMode := Some ()\<rparr>
       else if Mode e = ''ha'' then ans\<lparr>v1_HaMode := Some ()\<rparr>
       else if Mode e = ''decrypt-mirror'' then ans\<lparr>v1_DecryptMirrorMode := Some ()\<rparr>
       else if Mode e = ''aggregate-group'' then ans\<lparr>v1_AggregateGroupMode := Some ()\<rparr>
       else ans)"

text \<open>\<^verbatim>\<open>func specify_v2(e Entry) interface{}\<close>.\<close>

definition specify_v2 :: "'ent util \<Rightarrow> Entry \<Rightarrow> 'ent entry_v2" where
  "specify_v2 u e =
    (let ans = entry_v2_zero\<lparr>v2_Name := Name e, v2_LinkSpeed := LinkSpeed e,
                 v2_LinkDuplex := LinkDuplex e, v2_LinkState := LinkState e,
                 v2_Comment := Comment e\<rparr>
     in
       if Mode e = ''layer3'' then
         (let i = \<lparr>l3v2_Ipv6 = ipv6_zero,
                    l3v2_ManagementProfile = ManagementProfile e,
                    l3v2_Mtu = Mtu e,
                    l3v2_NetflowProfile = NetflowProfile e,
                    l3v2_AdjustTcpMss = YesNo u (AdjustTcpMss e),
                    l3v2_Ipv4MssAdjust = Ipv4MssAdjust e,
                    l3v2_Ipv6MssAdjust = Ipv6MssAdjust e,
                    l3v2_StaticIps = StrToEnt u (StaticIps e),
                    l3v2_Dhcp = None, l3v2_Arp = None, l3v2_Subinterface = None\<rparr>;
              i = i\<lparr>l3v2_Ipv6 := (l3v2_Ipv6 i)\<lparr>Enabled := YesNo u (Ipv6Enabled e)\<rparr>\<rparr>;
              i = (if EnableDhcp e \<or> CreateDhcpDefaultRoute e \<or> DhcpDefaultRouteMetric e \<noteq> 0
                   then i\<lparr>l3v2_Dhcp := Some \<lparr>Enable = YesNo u (EnableDhcp e),
                          CreateDefaultRoute = YesNo u (CreateDhcpDefaultRoute e),
                          Metric = DhcpDefaultRouteMetric e\<rparr>\<rparr>
                   else i);
              i = (case raw_lookup (raw e) ''arp'' of
                     Some text \<Rightarrow> i\<lparr>l3v2_Arp := Some text\<rparr> | None \<Rightarrow> i);
              i = (case raw_lookup (raw e) ''l3subinterface'' of
                     Some text \<Rightarrow> i\<lparr>l3v2_Subinterface := Some text\<rparr> | None \<Rightarrow> i);
              i = (case raw_lookup (raw e) ''ipv6'' of
                     Some text \<Rightarrow> i\<lparr>l3v2_Ipv6 := (l3v2_Ipv6 i)\<lparr>Address := Some text\<rparr>\<rparr>
                   | None \<Rightarrow> i)
          in ans\<lparr>v2_ModeL3 := Some i\<rparr>)
       else if Mode e = ''layer2'' then
         (let i = \<lparr>om_LldpEnabled = YesNo u (LldpEnabled e),
                    om_LldpProfile = LldpProfile e,
                    om_NetflowProfile = NetflowProfile e,
                    om_Subinterface = None\<rparr>;
              i = (case raw_lookup (raw e) ''l2subinterface'' of
                     Some text \<Rightarrow> i\<lparr>om_Subinterface := Some text\<rparr> | None \<Rightarrow> i)
          in ans\<lparr>v2_ModeL2 := Some i\<rparr>)
       else if Mode e = ''virtual-wire'' then
         (let i = \<lparr>om_LldpEnabled = YesNo u (LldpEnabled e),
                    om_LldpProfile = LldpProfile e,
                    om_NetflowProfile = NetflowProfile e,
                    om_Subinterface = None\<rparr>
          in ans\<lparr>v2_ModeVwire := Some i\<rparr>)
       else if Mode e = ''tap'' then ans\<lparr>v2_TapMode := Some ()\<rparr>
       else if Mode e = ''ha'' then ans\<lparr>v2_HaMode := Some ()\<rparr>
       else if Mode e = ''decrypt-mirror'' then ans\<lparr>v2_DecryptMirrorMode := Some ()\<rparr>
       else if Mode e = ''aggregate-group'' then ans\<lparr>v2_AggregateGroupMode := Some ()\<rparr>
       else ans)"

subsection \<open>Device versions and the choice of the wire format\<close>

text \<open>
  Modelled from the spec: the package \<^verbatim>\<open>pango/version\<close> (the struct \<^verbatim>\<open>version.Number\<close> and
  its method \<^verbatim>\<open>Gte\<close>) is not among the source files.  The spec describes a device version
  as "a 4-component ordered version value (major, minor, patch, optional suffix) ...
  compared with a greater-or-equal ordering", and \<^verbatim>\<open>eth.go\<close> builds one as
  \<^verbatim>\<open>version.Number{7, 1, 0, ""}\<close>.  The order is the lexicographic order of the three
  numbers; the suffix is a label and takes no part in it.
\<close>

record Number =
  Major :: int
  Minor :: int
  Patch :: int
  Suffix :: string

definition Gte :: "Number \<Rightarrow> Number \<Rightarrow> bool" where
  "Gte v w =
    (if Major v \<noteq> Major w then Major v > Major w
     else if Minor v \<noteq> Minor w then Minor v > Minor w
     else Patch v \<ge> Patch w)"

text \<open>
  The two results of \<^verbatim>\<open>versioning\<close>: a \<^verbatim>\<open>normalizer\<close> (an interface with the method
  \<^verbatim>\<open>Normalize\<close>, implemented by the two container types) and a function from \<^verbatim>\<open>Entry\<close> to
  \<^verbatim>\<open>interface{}\<close>, whose dynamic type is one of the two entry structs.
\<close>

datatype 'ent normalizer = Container_v1 "'ent container_v1" | Container_v2 "'ent container_v2"

datatype 'ent wire = Wire_v1 "'ent entry_v1" | Wire_v2 "'ent entry_v2"

fun Normalize :: "'ent util \<Rightarrow> 'ent normalizer \<Rightarrow> Entry" where
  "Normalize u (Container_v1 c) = Normalize_v1 u c"
| "Normalize u (Container_v2 c) = Normalize_v2 u c"

text \<open>
  \<^verbatim>\<open>func (c *Eth) versioning() (normalizer, func(Entry) (interface{}))\<close>, as a function of
  the version \<open>v\<close> that \<^verbatim>\<open>c.con.Versioning()\<close> returned.
\<close>

definition versioning :: "'ent util \<Rightarrow> Number \<Rightarrow> 'ent normalizer \<times> (Entry \<Rightarrow> 'ent wire)" where
  "versioning u v =
    (if Gte v \<lparr>Major = 7, Minor = 1, Patch = 0, Suffix = []\<rparr>
     then (Container_v2 \<lparr>Answer_v2 = entry_v2_zero\<rparr>, \<lambda>e. Wire_v2 (specify_v2 u e))
     else (Container_v1 \<lparr>Answer_v1 = entry_v1_zero\<rparr>, \<lambda>e. Wire_v1 (specify_v1 u e)))"

subsection \<open>Address paths\<close>

text \<open>\<^verbatim>\<open>func (c *Eth) xpath(vals []string) []string\<close>.\<close>

definition xpath :: "'ent util \<Rightarrow> string list \<Rightarrow> string list" where
  "xpath u vals =
    [''config'',
     ''devices'',
     AsEntryXpath u [''localhost.localdomain''],
     ''network'',
     ''interface'',
     ''ethernet'',
     AsEntryXpath u vals]"

subsection \<open>The client and its calls\<close>

text \<open>
  \<^verbatim>\<open>Eth\<close> holds one field, \<^verbatim>\<open>con util.XapiClient\<close>: the connection to the device, an
  interface whose implementation is outside \<^verbatim>\<open>eth.go\<close>.  The model takes it as a record
  of the methods that \<^verbatim>\<open>Set\<close>, \<^verbatim>\<open>Edit\<close> and \<^verbatim>\<open>Delete\<close> call, each a function of the state \<open>'s\<close>
  of the device and the connection, which it may change.  \<^verbatim>\<open>Set\<close>, \<^verbatim>\<open>Edit\<close> and
  \<^verbatim>\<open>Delete\<close> of the client return a byte slice that \<^verbatim>\<open>eth.go\<close> discards, and an error.

  \<^verbatim>\<open>Set\<close> passes \<^verbatim>\<open>d.Config()\<close> to the client, a method of \<^verbatim>\<open>util.BulkElement\<close> that is
  outside \<^verbatim>\<open>eth.go\<close>; the model hands the element \<open>d\<close> itself to the client.
\<close>

datatype go_value = GoNil | GoInt int | GoBool bool | GoEntryPointer Entry

datatype error = UnknownType go_value | TransportError string

record 'ent BulkElement =
  XMLName_Local :: string
  Data :: "'ent wire list"

record ('ent, 's) XapiClient =
  con_Versioning :: "'s \<Rightarrow> Number"
  con_Set :: "string list \<Rightarrow> 'ent BulkElement \<Rightarrow> 's \<Rightarrow> error option \<times> 's"
  con_Edit :: "string list \<Rightarrow> 'ent wire \<Rightarrow> 's \<Rightarrow> error option \<times> 's"
  con_Delete :: "string list \<Rightarrow> 's \<Rightarrow> error option \<times> 's"
  con_ImportInterfaces :: "string \<Rightarrow> string list \<Rightarrow> 's \<Rightarrow> error option \<times> 's"
  con_UnimportInterfaces :: "string \<Rightarrow> string list \<Rightarrow> 's \<Rightarrow> error option \<times> 's"

text \<open>
  Every call of a method of \<^verbatim>\<open>c.con\<close> is recorded, in order, with its arguments and
  with what it returned (\<^verbatim>\<open>LogAction\<close>, which returns nothing, with its format string
  and the name or names it prints).  A run of an operation starts from a record of calls
  and a state, and returns both.
\<close>

datatype 'ent call =
    Versioning_call Number
  | LogAction_call string "string list"
  | Set_call "string list" "'ent BulkElement" "error option"
  | Edit_call "string list" "'ent wire" "error option"
  | Delete_call "string list" "error option"
  | ImportInterfaces_call string "string list" "error option"
  | UnimportInterfaces_call string "string list" "error option"

type_synonym ('ent, 's) world = "'ent call list \<times> 's"

definition call_Versioning ::
  "('ent, 's) XapiClient \<Rightarrow> ('ent, 's) world \<Rightarrow> Number \<times> ('ent, 's) world" where
  "call_Versioning con w =
    (case w of (log, s) \<Rightarrow>
      (con_Versioning con s, (log @ [Versioning_call (con_Versioning con s)], s)))"

definition call_LogAction ::
  "string \<Rightarrow> string list \<Rightarrow> ('ent, 's) world \<Rightarrow> ('ent, 's) world" where
  "call_LogAction msg args w = (case w of (log, s) \<Rightarrow> (log @ [LogAction_call msg args], s))"

definition call_Set ::
  "('ent, 's) XapiClient \<Rightarrow> string list \<Rightarrow> 'ent BulkElement \<Rightarrow> ('ent, 's) world
    \<Rightarrow> error option \<times> ('ent, 's) world" where
  "call_Set con path d w =
    (case w of (log, s) \<Rightarrow>
      (case con_Set con path d s of (err, s') \<Rightarrow> (err, (log @ [Set_call path d err], s'))))"

definition call_Edit ::
  "('ent, 's) XapiClient \<Rightarrow> string list \<Rightarrow> 'ent wire \<Rightarrow> ('ent, 's) world
    \<Rightarrow> error option \<times> ('ent, 's) world" where
  "call_Edit con path x w =
    (case w of (log, s) \<Rightarrow>
      (case con_Edit con path x s of (err, s') \<Rightarrow> (err, (log @ [Edit_call path x err], s'))))"

definition call_Delete ::
  "('ent, 's) XapiClient \<Rightarrow> string list \<Rightarrow> ('ent, 's) world
    \<Rightarrow> error option \<times> ('ent, 's) world" where
  "call_Delete con path w =
    (case w of (log, s) \<Rightarrow>
      (case con_Delete con path s of (err, s') \<Rightarrow> (err, (log @ [Delete_call path err], s'))))"

definition call_ImportInterfaces ::
  "('ent, 's) XapiClient \<Rightarrow> string \<Rightarrow> string list \<Rightarrow> ('ent, 's) world
    \<Rightarrow> error option \<times> ('ent, 's) world" where
  "call_ImportInterfaces con vsys names w =
    (case w of (log, s) \<Rightarrow>
      (case con_ImportInterfaces con vsys names s of
         (err, s') \<Rightarrow> (err, (log @ [ImportInterfaces_call vsys names err], s'))))"

definition call_UnimportInterfaces ::
  "('ent, 's) XapiClient \<Rightarrow> string \<Rightarrow> string list \<Rightarrow> ('ent, 's) world
    \<Rightarrow> error option \<times> ('ent, 's) world" where
  "call_UnimportInterfaces con vsys names w =
    (case w of (log, s) \<Rightarrow>
      (case con_UnimportInterfaces con vsys names s of
         (err, s') \<Rightarrow> (err, (log @ [UnimportInterfaces_call vsys names err], s'))))"

subsection \<open>Set\<close>

text \<open>
  The loop of \<^verbatim>\<open>Set\<close> over \<^verbatim>\<open>e\<close>: it appends \<^verbatim>\<open>fn(e[i])\<close> to \<^verbatim>\<open>d.Data\<close>, stores the name in
  \<^verbatim>\<open>n1[i]\<close>, and appends the name to \<^verbatim>\<open>n2\<close> unless the mode is "ha" or "aggregate-group".
  The accumulator is \<open>(d.Data, n1, n2)\<close>.
\<close>

fun Set_loop ::
  "(Entry \<Rightarrow> 'ent wire) \<Rightarrow> Entry list \<Rightarrow> 'ent wire list \<times> string list \<times> string list
    \<Rightarrow> 'ent wire list \<times> string list \<times> string list" where
  "Set_loop fn [] acc = acc"
| "Set_loop fn (x # xs) (dat, n1, n2) =
     Set_loop fn xs
       (dat @ [fn x], n1 @ [Name x],
        if Mode x \<noteq> ''ha'' \<and> Mode x \<noteq> ''aggregate-group'' then n2 @ [Name x] else n2)"

text \<open>
  \<^verbatim>\<open>func (c *Eth) Set(vsys string, e ...Entry) error\<close>.  \<^verbatim>\<open>path[:len(path) - 1]\<close> is
  \<open>take (length path - 1) path\<close>; the path has seven segments, so the slice expressions
  are in range.
\<close>

definition Eth_Set ::
  "'ent util \<Rightarrow> ('ent, 's) XapiClient \<Rightarrow> string \<Rightarrow> Entry list \<Rightarrow> ('ent, 's) world
    \<Rightarrow> error option \<times> ('ent, 's) world" where
  "Eth_Set u con vsys e w =
    (if length e = 0 then (None, w)
     else
       (case call_Versioning con w of (v, w) \<Rightarrow>
         (let fn = snd (versioning u v) in
          (case Set_loop fn e ([], [], []) of (dat, n1, n2) \<Rightarrow>
            (let d = \<lparr>XMLName_Local = ''ethernet'', Data = dat\<rparr>;
                 w = call_LogAction ''(set) ethernet interfaces: %v'' n1 w;
                 path = xpath u n1;
                 path = (if length e = 1 then take (length path - 1) path
                         else take (length path - 2) path)
             in
               (case call_Set con path d w of (err, w) \<Rightarrow>
                  if err \<noteq> None then (err, w)
                  else if vsys = [] \<or> length n2 = 0 then (None, w)
                  else call_ImportInterfaces con vsys n2 w))))))"

subsection \<open>Edit\<close>

text \<open>\<^verbatim>\<open>func (c *Eth) Edit(vsys string, e Entry) error\<close>.\<close>

definition Eth_Edit ::
  "'ent util \<Rightarrow> ('ent, 's) XapiClient \<Rightarrow> string \<Rightarrow> Entry \<Rightarrow> ('ent, 's) world
    \<Rightarrow> error option \<times> ('ent, 's) world" where
  "Eth_Edit u con vsys e w =
    (case call_Versioning con w of (v, w) \<Rightarrow>
      (let fn = snd (versioning u v);
           w = call_LogAction ''(edit) ethernet interface %q'' [Name e] w;
           path = xpath u [Name e]
       in
         (case call_Edit con path (fn e) w of (err, w) \<Rightarrow>
            if err \<noteq> None then (err, w)
            else if vsys = [] \<or> Mode e = ''ha'' \<or> Mode e = ''aggregate-group'' then (None, w)
            else call_ImportInterfaces con vsys [Name e] w)))"

subsection \<open>Delete\<close>

text \<open>
  The arguments of \<^verbatim>\<open>Delete\<close> are values of type \<^verbatim>\<open>interface{}\<close>.  The type switch knows a
  \<^verbatim>\<open>string\<close> and an \<^verbatim>\<open>Entry\<close>; every other value (nil, a number, a pointer to an
  \<^verbatim>\<open>Entry\<close>, ...) takes the default case.
\<close>

datatype ident = IdString string | IdEntry Entry | IdOther go_value

text \<open>
  The loop of \<^verbatim>\<open>Delete\<close> that fills \<^verbatim>\<open>names\<close>; the default case returns from \<^verbatim>\<open>Delete\<close>
  with \<^verbatim>\<open>fmt.Errorf("Unknown type sent to delete: %s", v)\<close>.
\<close>

fun Delete_loop :: "ident list \<Rightarrow> string list \<Rightarrow> error + string list" where
  "Delete_loop [] names = Inr names"
| "Delete_loop (IdString v # xs) names = Delete_loop xs (names @ [v])"
| "Delete_loop (IdEntry v # xs) names = Delete_loop xs (names @ [Name v])"
| "Delete_loop (IdOther v # xs) names = Inl (UnknownType v)"

text \<open>\<^verbatim>\<open>func (c *Eth) Delete(vsys string, e ...interface{}) error\<close>.\<close>

definition Eth_Delete ::
  "'ent util \<Rightarrow> ('ent, 's) XapiClient \<Rightarrow> string \<Rightarrow> ident list \<Rightarrow> ('ent, 's) world
    \<Rightarrow> error option \<times> ('ent, 's) world" where
  "Eth_Delete u con vsys e w =
    (if length e = 0 then (None, w)
     else
       (case Delete_loop e [] of
          Inl err \<Rightarrow> (Some err, w)
        | Inr names \<Rightarrow>
            (let w = call_LogAction ''(delete) ethernet interface(s): %v'' names w in
             (case call_UnimportInterfaces con vsys names w of (err, w) \<Rightarrow>
                if err \<noteq> None then (err, w)
                else (let path = xpath u names in call_Delete con path w)))))"

subsection \<open>Vocabulary of the properties\<close>

text \<open>
  The error that a run returned and the record of the calls it made; the paths it handed
  to the \<^verbatim>\<open>Set\<close> and \<^verbatim>\<open>Edit\<close> primitives of the client; the arguments of its import
  calls.
\<close>

definition returned :: "error option \<times> ('ent, 's) world \<Rightarrow> error option" where
  "returned r = fst r"

definition calls :: "error option \<times> ('ent, 's) world \<Rightarrow> 'ent call list" where
  "calls r = fst (snd r)"

fun Set_paths :: "'ent call list \<Rightarrow> string list list" where
  "Set_paths [] = []"
| "Set_paths (Set_call path d err # cs) = path # Set_paths cs"
| "Set_paths (c # cs) = Set_paths cs"

fun Edit_paths :: "'ent call list \<Rightarrow> string list list" where
  "Edit_paths [] = []"
| "Edit_paths (Edit_call path x err # cs) = path # Edit_paths cs"
| "Edit_paths (c # cs) = Edit_paths cs"

fun import_calls :: "'ent call list \<Rightarrow> (string \<times> string list) list" where
  "import_calls [] = []"
| "import_calls (ImportInterfaces_call vsys names err # cs) = (vsys, names) # import_calls cs"
| "import_calls (c # cs) = import_calls cs"

fun unimport_calls :: "'ent call list \<Rightarrow> (string \<times> string list) list" where
  "unimport_calls [] = []"
| "unimport_calls (UnimportInterfaces_call vsys names err # cs) = (vsys, names) # unimport_calls cs"
| "unimport_calls (c # cs) = unimport_calls cs"

text \<open>
  The names that the follow-up import of \<^verbatim>\<open>Set\<close> is to carry: those of the entities whose
  mode is neither "ha" nor "aggregate-group", in the order of the input.
\<close>

definition import_names :: "Entry list \<Rightarrow> string list" where
  "import_names e =
     map Name (filter (\<lambda>x. Mode x \<noteq> ''ha'' \<and> Mode x \<noteq> ''aggregate-group'') e)"

text \<open>
  An identifier that \<^verbatim>\<open>Delete\<close> accepts (a bare name or an \<^verbatim>\<open>Entry\<close>), and the name it
  stands for.
\<close>

fun is_name :: "ident \<Rightarrow> bool" where
  "is_name (IdString v) = True"
| "is_name (IdEntry v) = True"
| "is_name (IdOther v) = False"

fun name_of :: "ident \<Rightarrow> string" where
  "name_of (IdString v) = v"
| "name_of (IdEntry v) = Name v"
| "name_of (IdOther v) = []"

text \<open>
  The seven modes, the fragments of the map \<^verbatim>\<open>raw\<close> that belong to each mode, and the
  two conditions on a normalized entry: the fields that belong to other modes are zero,
  and the map of fragments is nil, or is not empty and has keys of the mode only.
\<close>

definition modes :: "string list" where
  "modes = [''layer3'', ''layer2'', ''virtual-wire'', ''tap'', ''ha'', ''decrypt-mirror'',
            ''aggregate-group'']"

definition mode_fragments :: "string \<Rightarrow> string list" where
  "mode_fragments m =
    (if m = ''layer3'' then [''arp'', ''l3subinterface'', ''ipv6'']
     else if m = ''layer2'' then [''l2subinterface'']
     else [])"

definition other_modes_zero :: "Entry \<Rightarrow> bool" where
  "other_modes_zero e \<longleftrightarrow>
    (Mode e \<noteq> ''layer3'' \<longrightarrow>
       StaticIps e = [] \<and> \<not> EnableDhcp e \<and> \<not> CreateDhcpDefaultRoute e \<and>
       DhcpDefaultRouteMetric e = 0 \<and> \<not> Ipv6Enabled e \<and> ManagementProfile e = [] \<and>
       Mtu e = 0 \<and> \<not> AdjustTcpMss e \<and> Ipv4MssAdjust e = 0 \<and> Ipv6MssAdjust e = 0) \<and>
    (Mode e \<noteq> ''layer2'' \<and> Mode e \<noteq> ''virtual-wire'' \<longrightarrow>
       \<not> LldpEnabled e \<and> LldpProfile e = []) \<and>
    (Mode e \<noteq> ''layer3'' \<and> Mode e \<noteq> ''layer2'' \<and> Mode e \<noteq> ''virtual-wire'' \<longrightarrow>
       NetflowProfile e = []) \<and>
    (Mode e \<noteq> ''aggregate-group'' \<longrightarrow> AggregateGroup e = [])"

definition fragments_per_mode :: "Entry \<Rightarrow> bool" where
  "fragments_per_mode e \<longleftrightarrow>
    (case raw e of
       None \<Rightarrow> True
     | Some m \<Rightarrow> m \<noteq> Map.empty \<and> dom m \<subseteq> set (mode_fragments (Mode e)))"

text \<open>
  The mode that the order layer3, layer2, virtual-wire, tap, ha, decrypt-mirror,
  aggregate-group gives: the first of the seven whose sub-structure is present, and the
  empty string when none is.
\<close>

definition first_mode :: "bool \<Rightarrow> bool \<Rightarrow> bool \<Rightarrow> bool \<Rightarrow> bool \<Rightarrow> bool \<Rightarrow> bool \<Rightarrow> string" where
  "first_mode l3 l2 vw tap ha dm ag =
    (if l3 then ''layer3''
     else if l2 then ''layer2''
     else if vw then ''virtual-wire''
     else if tap then ''tap''
     else if ha then ''ha''
     else if dm then ''decrypt-mirror''
     else if ag then ''aggregate-group''
     else [])"

text \<open>
  Writing an entry and reading it back on a device of version \<open>v\<close>: the entry goes
  through the function that \<^verbatim>\<open>versioning\<close> returns, and what it builds is the answer
  in the container of the same version, which \<^verbatim>\<open>Normalize\<close> reads.
\<close>

definition roundtrip :: "'ent util \<Rightarrow> Number \<Rightarrow> Entry \<Rightarrow> Entry" where
  "roundtrip u v e =
    (case snd (versioning u v) e of
       Wire_v1 x \<Rightarrow> Normalize u (Container_v1 \<lparr>Answer_v1 = x\<rparr>)
     | Wire_v2 x \<Rightarrow> Normalize u (Container_v2 \<lparr>Answer_v2 = x\<rparr>))"

subsection \<open>Instances for evaluation\<close>

text \<open>
  The theorems below hold for every record of helpers and every client.  To evaluate the
  model on concrete inputs, this is one record of helpers (tokens "yes" and "no", entry
  lists as lists of strings, fragments kept as they are, a selector that lists the names)
  and one family of clients: the state counts the calls that reached the device, the
  version is \<open>ver\<close>, the primitives \<^verbatim>\<open>Set\<close>, \<^verbatim>\<open>Edit\<close> and \<^verbatim>\<open>Delete\<close> answer \<open>primary\<close>, the
  import and the unimport answer \<open>side\<close>.
\<close>

definition sample_util :: "string list util" where
  "sample_util =
    \<lparr>AsBool = (\<lambda>s. s = ''yes''),
     YesNo = (\<lambda>b. if b then ''yes'' else ''no''),
     EntToStr = (\<lambda>x. x),
     StrToEnt = (\<lambda>x. x),
     CleanRawXml = (\<lambda>t. t),
     AsEntryXpath = (\<lambda>vals. ''entry'' @ concat (map (\<lambda>v. ''['' @ v @ '']'') vals))\<rparr>"

definition stub_client ::
  "Number \<Rightarrow> error option \<Rightarrow> error option \<Rightarrow> (string list, nat) XapiClient" where
  "stub_client ver primary side =
    \<lparr>con_Versioning = (\<lambda>s. ver),
     con_Set = (\<lambda>path d s. (primary, Suc s)),
     con_Edit = (\<lambda>path x s. (primary, Suc s)),
     con_Delete = (\<lambda>path s. (primary, Suc s)),
     con_ImportInterfaces = (\<lambda>vsys names s. (side, Suc s)),
     con_UnimportInterfaces = (\<lambda>vsys names s. (side, Suc s))\<rparr>"

definition version_6_1 :: Number where
  "version_6_1 = \<lparr>Major = 6, Minor = 1, Patch = 0, Suffix = []\<rparr>"

definition version_8_0 :: Number where
  "version_8_0 = \<lparr>Major = 8, Minor = 0, Patch = 2, Suffix = []\<rparr>"

definition named :: "string \<Rightarrow> string \<Rightarrow> Entry" where
  "named n m = Entry_zero\<lparr>Name := n, Mode := m\<rparr>"

text \<open>
  An answer of version 1 with two mode sub-structures, layer2 and ha, and an answer of
  version 2 with none.
\<close>

definition two_modes_v1 :: "string list container_v1" where
  "two_modes_v1 =
    \<lparr>Answer_v1 = entry_v1_zero
       \<lparr>v1_Name := ''ethernet1/3'',
        v1_ModeL2 := Some \<lparr>om_LldpEnabled = ''yes'', om_LldpProfile = ''lldp1'',
                            om_NetflowProfile = [], om_Subinterface = Some ''<entry/>''\<rparr>,
        v1_HaMode := Some ()\<rparr>\<rparr>"

definition no_mode_v2 :: "string list container_v2" where
  "no_mode_v2 = \<lparr>Answer_v2 = entry_v2_zero\<lparr>v2_Name := ''ethernet1/4''\<rparr>\<rparr>"

text \<open>
  A layer3 entry with every layer3 field set and two fragments, and a layer3 entry that
  sets nothing but an MSS adjustment.
\<close>

definition layer3_entry :: Entry where
  "layer3_entry =
    \<lparr>Name = ''ethernet1/1'', Mode = ''layer3'', StaticIps = [''10.1.1.1/24'', ''10.1.2.1/24''],
     EnableDhcp = False, CreateDhcpDefaultRoute = True, DhcpDefaultRouteMetric = 10,
     Ipv6Enabled = True, ManagementProfile = ''allow-ping'', Mtu = 1500,
     AdjustTcpMss = True, NetflowProfile = ''nf1'', LldpEnabled = False, LldpProfile = [],
     LinkSpeed = ''auto'', LinkDuplex = ''full'', LinkState = ''up'', AggregateGroup = [],
     Comment = ''uplink'', Ipv4MssAdjust = 40, Ipv6MssAdjust = 60,
     raw = Some [''arp'' \<mapsto> ''<entry/>'', ''ipv6'' \<mapsto> ''<entry/><entry/>'']\<rparr>"

definition mss_entry :: Entry where
  "mss_entry = (named ''ethernet1/1'' ''layer3'')\<lparr>Ipv4MssAdjust := 40\<rparr>"

section \<open>Properties\<close>

subsection \<open>Copy\<close>

text \<open>
  C7 (as stated, it fails): after \<^verbatim>\<open>o.Copy(s)\<close> every field of \<open>o\<close> other than the name,
  the map of opaque fragments included, would equal the field of \<open>s\<close>.  \<^verbatim>\<open>Copy\<close> has no
  assignment to \<^verbatim>\<open>raw\<close>: a receiver without fragments keeps none when the source has one.
\<close>

theorem Copy_raw_counterexample:
  "raw (Copy Entry_zero (Entry_zero\<lparr>Mode := ''layer3'', raw := Some [''arp'' \<mapsto> ''<entry/>'']\<rparr>))
     \<noteq> raw (Entry_zero\<lparr>Mode := ''layer3'', raw := Some [''arp'' \<mapsto> ''<entry/>'']\<rparr>)"
  by (simp add: Copy_def Entry_zero_def)

text \<open>
  C7 (amended): after \<^verbatim>\<open>o.Copy(s)\<close> each of the nineteen exported fields of \<open>o\<close> other than
  \<^verbatim>\<open>Name\<close> equals the field of \<open>s\<close>, and two fields of \<open>o\<close> are as they were before the
  call: \<^verbatim>\<open>Name\<close> and the unexported map \<^verbatim>\<open>raw\<close> of opaque fragments.
\<close>

theorem Copy_all_but_Name_and_raw:
  "Copy obj s = s\<lparr>Name := Name obj, raw := raw obj\<rparr>"
  by (simp add: Copy_def)

subsection \<open>Empty batches\<close>

text \<open>
  C9: \<^verbatim>\<open>Set\<close> with no entity and \<^verbatim>\<open>Delete\<close> with no identifier return no error and call
  no method of the client, whatever the scope: the record of calls and the state of the
  device are returned as they were given.
\<close>

theorem empty_batch_no_call:
  "Eth_Set u con vsys [] w = (None, w) \<and> Eth_Delete u con vsys [] w = (None, w)"
  by (simp add: Eth_Set_def Eth_Delete_def)

subsection \<open>The names that Delete resolves\<close>

lemma Delete_loop_names:
  "list_all is_name e \<Longrightarrow> Delete_loop e acc = Inr (acc @ map name_of e)"
proof (induction e arbitrary: acc)
  case Nil
  then show ?case by simp
next
  case (Cons x xs)
  then show ?case by (cases x) simp_all
qed

lemma Delete_loop_bad:
  "list_all is_name pre \<Longrightarrow> Delete_loop (pre @ IdOther v # post) acc = Inl (UnknownType v)"
proof (induction pre arbitrary: acc)
  case Nil
  then show ?case by simp
next
  case (Cons x xs)
  then show ?case by (cases x) simp_all
qed

lemma first_bad:
  "\<not> list_all is_name e \<Longrightarrow> \<exists>pre v post. e = pre @ IdOther v # post \<and> list_all is_name pre"
proof (induction e)
  case Nil
  then show ?case by simp
next
  case (Cons x xs)
  show ?case
  proof (cases "is_name x")
    case True
    with Cons obtain pre v post where "xs = pre @ IdOther v # post" "list_all is_name pre"
      by auto
    with True have "x # xs = (x # pre) @ IdOther v # post \<and> list_all is_name (x # pre)"
      by simp
    then show ?thesis by blast
  next
    case False
    then obtain v where "x = IdOther v" by (cases x) simp_all
    then have "x # xs = [] @ IdOther v # xs \<and> list_all is_name []" by simp
    then show ?thesis by blast
  qed
qed

text \<open>
  C8: when an element of the identifier list is neither a string nor an \<^verbatim>\<open>Entry\<close>,
  \<^verbatim>\<open>Delete\<close> returns the error that carries the first such element, and it has called no
  method of the client: neither the unimport nor the delete, and the state of the device
  is as before.
\<close>

theorem Delete_unknown_type:
  "\<not> list_all is_name e \<Longrightarrow>
     \<exists>pre v post. e = pre @ IdOther v # post \<and> list_all is_name pre \<and>
       Eth_Delete u con vsys e w = (Some (UnknownType v), w)"
proof -
  assume "\<not> list_all is_name e"
  then obtain pre v post where e: "e = pre @ IdOther v # post" and pre: "list_all is_name pre"
    using first_bad by blast
  have "Eth_Delete u con vsys e w = (Some (UnknownType v), w)"
    by (simp add: Eth_Delete_def e Delete_loop_bad [OF pre])
  with e pre show ?thesis by blast
qed

theorem Delete_unknown_type_witness:
  "\<not> list_all is_name [IdString ''ethernet1/1'', IdOther (GoInt 7), IdOther GoNil] \<and>
   (\<exists>pre v post.
      [IdString ''ethernet1/1'', IdOther (GoInt 7), IdOther GoNil] = pre @ IdOther v # post \<and>
      list_all is_name pre \<and>
      Eth_Delete sample_util (stub_client version_8_0 None None) ''vsys1''
        [IdString ''ethernet1/1'', IdOther (GoInt 7), IdOther GoNil] ([], 0)
        = (Some (UnknownType v), ([], 0)))"
  using Delete_unknown_type [of "[IdString ''ethernet1/1'', IdOther (GoInt 7), IdOther GoNil]"
      sample_util "stub_client version_8_0 None None" "''vsys1''" "([], 0)"]
  by simp

subsection \<open>What a run of Set, Edit and Delete is\<close>

text \<open>
  The three operations in closed form: the loop of \<^verbatim>\<open>Set\<close> computes two maps and a
  filter, and each run is a fixed sequence of calls with one or two branches.
\<close>

lemma Set_loop_result:
  "Set_loop fn e (dat, n1, n2) = (dat @ map fn e, n1 @ map Name e, n2 @ import_names e)"
  by (induction e arbitrary: dat n1 n2) (simp_all add: import_names_def)

lemma Eth_Set_run:
  assumes "e \<noteq> []"
  shows "Eth_Set u con vsys e (log, s) =
    (let v = con_Versioning con s;
         d = \<lparr>XMLName_Local = ''ethernet'', Data = map (snd (versioning u v)) e\<rparr>;
         path = take (if length e = 1 then 6 else 5) (xpath u (map Name e));
         r = con_Set con path d s;
         log1 = log @ [Versioning_call v,
                       LogAction_call ''(set) ethernet interfaces: %v'' (map Name e),
                       Set_call path d (fst r)];
         r2 = con_ImportInterfaces con vsys (import_names e) (snd r)
     in if fst r \<noteq> None then (fst r, (log1, snd r))
        else if vsys = [] \<or> import_names e = [] then (None, (log1, snd r))
        else (fst r2, (log1 @ [ImportInterfaces_call vsys (import_names e) (fst r2)], snd r2)))"
  using assms
  by (simp add: Eth_Set_def call_Versioning_def call_LogAction_def call_Set_def
      call_ImportInterfaces_def Set_loop_result Let_def xpath_def case_prod_beta)

lemma Eth_Edit_run:
  "Eth_Edit u con vsys e (log, s) =
    (let v = con_Versioning con s;
         x = snd (versioning u v) e;
         path = xpath u [Name e];
         r = con_Edit con path x s;
         log1 = log @ [Versioning_call v,
                       LogAction_call ''(edit) ethernet interface %q'' [Name e],
                       Edit_call path x (fst r)];
         r2 = con_ImportInterfaces con vsys [Name e] (snd r)
     in if fst r \<noteq> None then (fst r, (log1, snd r))
        else if vsys = [] \<or> Mode e = ''ha'' \<or> Mode e = ''aggregate-group''
          then (None, (log1, snd r))
        else (fst r2, (log1 @ [ImportInterfaces_call vsys [Name e] (fst r2)], snd r2)))"
  by (simp add: Eth_Edit_def call_Versioning_def call_LogAction_def call_Edit_def
      call_ImportInterfaces_def Let_def case_prod_beta)

lemma Eth_Delete_run:
  assumes "e \<noteq> []" and "list_all is_name e"
  shows "Eth_Delete u con vsys e (log, s) =
    (let names = map name_of e;
         r = con_UnimportInterfaces con vsys names s;
         log1 = log @ [LogAction_call ''(delete) ethernet interface(s): %v'' names,
                       UnimportInterfaces_call vsys names (fst r)];
         r2 = con_Delete con (xpath u names) (snd r)
     in if fst r \<noteq> None then (fst r, (log1, snd r))
        else (fst r2, (log1 @ [Delete_call (xpath u names) (fst r2)], snd r2)))"
  using assms
  by (simp add: Eth_Delete_def Delete_loop_names call_LogAction_def call_UnimportInterfaces_def
      call_Delete_def Let_def case_prod_beta)

lemma Eth_Delete_no_call:
  "e = [] \<or> \<not> list_all is_name e \<Longrightarrow> calls (Eth_Delete u con vsys e (log, s)) = log"
proof (cases "e = []")
  case True
  then show ?thesis by (simp add: Eth_Delete_def calls_def)
next
  case False
  assume "e = [] \<or> \<not> list_all is_name e"
  with False have "\<not> list_all is_name e" by simp
  then obtain pre v post where e: "e = pre @ IdOther v # post" and pre: "list_all is_name pre"
    using first_bad by blast
  show ?thesis by (simp add: Eth_Delete_def calls_def e Delete_loop_bad [OF pre])
qed

lemmas sample_simps = sample_util_def stub_client_def version_8_0_def version_6_1_def named_def
  Entry_zero_def calls_def returned_def Let_def xpath_def import_names_def

subsection \<open>The paths of Set and Edit\<close>

text \<open>
  C2 (as stated, it fails): \<^verbatim>\<open>Set\<close> with one entity would hand the \<^verbatim>\<open>Set\<close> primitive the
  path that \<^verbatim>\<open>Edit\<close> hands the \<^verbatim>\<open>Edit\<close> primitive for that entity, and \<^verbatim>\<open>Set\<close> with
  several entities would hand it the container path (the path that ends at the
  segment "ethernet").  \<^verbatim>\<open>Set\<close> cuts the last segment off for one entity and the
  last two for several.
\<close>

theorem Set_path_counterexample:
  "Set_paths (calls (Eth_Set sample_util (stub_client version_8_0 None None) ''vsys1''
       [named ''ethernet1/1'' ''layer3''] ([], 0)))
     \<noteq> Edit_paths (calls (Eth_Edit sample_util (stub_client version_8_0 None None) ''vsys1''
       (named ''ethernet1/1'' ''layer3'') ([], 0))) \<and>
   Set_paths (calls (Eth_Set sample_util (stub_client version_8_0 None None) ''vsys1''
       [named ''ethernet1/1'' ''layer3'', named ''ethernet1/2'' ''layer3''] ([], 0)))
     \<noteq> [[''config'', ''devices'', ''entry[localhost.localdomain]'', ''network'', ''interface'',
          ''ethernet'']]"
  by (simp add: Eth_Set_run Eth_Edit_run sample_simps)

text \<open>
  C2 (amended): \<^verbatim>\<open>Set\<close> with one entity hands the \<^verbatim>\<open>Set\<close> primitive the path of \<^verbatim>\<open>Edit\<close>
  for that entity without its last segment, the entry selector: the six segments that end
  at "ethernet", the container path.  \<^verbatim>\<open>Edit\<close> hands the \<^verbatim>\<open>Edit\<close> primitive all seven
  segments.  \<^verbatim>\<open>Set\<close> with more than one entity hands the \<^verbatim>\<open>Set\<close> primitive the five
  segments that end at "interface", the parent of the container and not an entry path.
\<close>

theorem Set_path_rule:
  "Set_paths (calls (Eth_Set u con vsys [e] ([], s))) =
     [[''config'', ''devices'', AsEntryXpath u [''localhost.localdomain''], ''network'',
       ''interface'', ''ethernet'']] \<and>
   Edit_paths (calls (Eth_Edit u con vsys e ([], s))) =
     [[''config'', ''devices'', AsEntryXpath u [''localhost.localdomain''], ''network'',
       ''interface'', ''ethernet'', AsEntryXpath u [Name e]]] \<and>
   (1 < length es \<longrightarrow>
      Set_paths (calls (Eth_Set u con vsys es ([], s))) =
        [[''config'', ''devices'', AsEntryXpath u [''localhost.localdomain''], ''network'',
          ''interface'']])"
proof (intro conjI impI)
  show "Set_paths (calls (Eth_Set u con vsys [e] ([], s))) =
     [[''config'', ''devices'', AsEntryXpath u [''localhost.localdomain''], ''network'',
       ''interface'', ''ethernet'']]"
    by (simp add: Eth_Set_run calls_def Let_def xpath_def)
  show "Edit_paths (calls (Eth_Edit u con vsys e ([], s))) =
     [[''config'', ''devices'', AsEntryXpath u [''localhost.localdomain''], ''network'',
       ''interface'', ''ethernet'', AsEntryXpath u [Name e]]]"
    by (simp add: Eth_Edit_run calls_def Let_def xpath_def)
  assume "1 < length es"
  then have "es \<noteq> []" "length es \<noteq> 1" by auto
  then show "Set_paths (calls (Eth_Set u con vsys es ([], s))) =
        [[''config'', ''devices'', AsEntryXpath u [''localhost.localdomain''], ''network'',
          ''interface'']]"
    by (simp add: Eth_Set_run calls_def Let_def xpath_def)
qed

theorem Set_path_rule_witness:
  "1 < length [named ''ethernet1/1'' ''layer3'', named ''ethernet1/2'' ''ha''] \<and>
   Set_paths (calls (Eth_Set sample_util (stub_client version_8_0 None None) ''vsys1''
       [named ''ethernet1/1'' ''layer3'', named ''ethernet1/2'' ''ha''] ([], 0)))
     = [[''config'', ''devices'', ''entry[localhost.localdomain]'', ''network'', ''interface'']]"
  using Set_path_rule [of sample_util "stub_client version_8_0 None None" "''vsys1''"
      "named ''ethernet1/1'' ''layer3''" 0 "[named ''ethernet1/1'' ''layer3'', named ''ethernet1/2'' ''ha'']"]
  by (simp add: sample_util_def)

subsection \<open>The import that follows Set and Edit\<close>

text \<open>
  C4: take a non-empty scope.  When \<^verbatim>\<open>Set\<close> is called with at least one entity and the
  client answers the \<^verbatim>\<open>Set\<close> primitive with no error, the run of \<^verbatim>\<open>Set\<close> is: the version
  query, the log line, the \<^verbatim>\<open>Set\<close> primitive, and then one import call for the scope
  and the names of the entities whose mode is neither "ha" nor "aggregate-group", in the
  order of the input, whose answer \<^verbatim>\<open>Set\<close> returns; when there is no such entity the run
  ends after the \<^verbatim>\<open>Set\<close> primitive and returns no error.  When the client answers the
  \<^verbatim>\<open>Edit\<close> primitive with no error, the run of \<^verbatim>\<open>Edit\<close> ends with one import call for the
  name of the entity if its mode is neither "ha" nor "aggregate-group", and otherwise
  it ends after the \<^verbatim>\<open>Edit\<close> primitive and returns no error.
\<close>

theorem Import_exclusion:
  assumes "vsys \<noteq> []"
  shows "(e \<noteq> [] \<and>
          fst (con_Set con (take (if length e = 1 then 6 else 5) (xpath u (map Name e))) \<lparr>XMLName_Local = ''ethernet'', Data = map (snd (versioning u (con_Versioning con s))) e\<rparr> s) = None \<longrightarrow>
            Eth_Set u con vsys e ([], s) =
              (if import_names e = []
               then (None,
                     ([Versioning_call (con_Versioning con s),
                LogAction_call ''(set) ethernet interfaces: %v'' (map Name e),
                Set_call (take (if length e = 1 then 6 else 5) (xpath u (map Name e)))
                  \<lparr>XMLName_Local = ''ethernet'', Data = map (snd (versioning u (con_Versioning con s))) e\<rparr> None],
                      snd (con_Set con (take (if length e = 1 then 6 else 5) (xpath u (map Name e))) \<lparr>XMLName_Local = ''ethernet'', Data = map (snd (versioning u (con_Versioning con s))) e\<rparr> s)))
               else (fst (con_ImportInterfaces con vsys (import_names e) (snd (con_Set con (take (if length e = 1 then 6 else 5) (xpath u (map Name e))) \<lparr>XMLName_Local = ''ethernet'', Data = map (snd (versioning u (con_Versioning con s))) e\<rparr> s))),
                     ([Versioning_call (con_Versioning con s),
                LogAction_call ''(set) ethernet interfaces: %v'' (map Name e),
                Set_call (take (if length e = 1 then 6 else 5) (xpath u (map Name e)))
                  \<lparr>XMLName_Local = ''ethernet'', Data = map (snd (versioning u (con_Versioning con s))) e\<rparr> None,
                       ImportInterfaces_call vsys (import_names e)
                         (fst (con_ImportInterfaces con vsys (import_names e) (snd (con_Set con (take (if length e = 1 then 6 else 5) (xpath u (map Name e))) \<lparr>XMLName_Local = ''ethernet'', Data = map (snd (versioning u (con_Versioning con s))) e\<rparr> s))))],
                      snd (con_ImportInterfaces con vsys (import_names e) (snd (con_Set con (take (if length e = 1 then 6 else 5) (xpath u (map Name e))) \<lparr>XMLName_Local = ''ethernet'', Data = map (snd (versioning u (con_Versioning con s))) e\<rparr> s)))))) \<and>
            import_calls (calls (Eth_Set u con vsys e ([], s))) =
              (if import_names e = [] then [] else [(vsys, import_names e)])) \<and>
         (fst (con_Edit con (xpath u [Name x]) (snd (versioning u (con_Versioning con s)) x) s) = None \<longrightarrow>
            Eth_Edit u con vsys x ([], s) =
              (if Mode x = ''ha'' \<or> Mode x = ''aggregate-group''
               then (None,
                     ([Versioning_call (con_Versioning con s),
                LogAction_call ''(edit) ethernet interface %q'' [Name x],
                Edit_call (xpath u [Name x]) (snd (versioning u (con_Versioning con s)) x) None],
                      snd (con_Edit con (xpath u [Name x]) (snd (versioning u (con_Versioning con s)) x) s)))
               else (fst (con_ImportInterfaces con vsys [Name x] (snd (con_Edit con (xpath u [Name x]) (snd (versioning u (con_Versioning con s)) x) s))),
                     ([Versioning_call (con_Versioning con s),
                LogAction_call ''(edit) ethernet interface %q'' [Name x],
                Edit_call (xpath u [Name x]) (snd (versioning u (con_Versioning con s)) x) None,
                       ImportInterfaces_call vsys [Name x]
                         (fst (con_ImportInterfaces con vsys [Name x] (snd (con_Edit con (xpath u [Name x]) (snd (versioning u (con_Versioning con s)) x) s))))],
                      snd (con_ImportInterfaces con vsys [Name x] (snd (con_Edit con (xpath u [Name x]) (snd (versioning u (con_Versioning con s)) x) s)))))) \<and>
            import_calls (calls (Eth_Edit u con vsys x ([], s))) =
              (if Mode x \<noteq> ''ha'' \<and> Mode x \<noteq> ''aggregate-group''
               then [(vsys, [Name x])] else []))"
proof (intro conjI impI)
  assume a: "e \<noteq> [] \<and>
          fst (con_Set con (take (if length e = 1 then 6 else 5) (xpath u (map Name e))) \<lparr>XMLName_Local = ''ethernet'', Data = map (snd (versioning u (con_Versioning con s))) e\<rparr> s) = None"
  then have ne: "e \<noteq> []" by simp
  from a assms show "Eth_Set u con vsys e ([], s) =
              (if import_names e = []
               then (None,
                     ([Versioning_call (con_Versioning con s),
                LogAction_call ''(set) ethernet interfaces: %v'' (map Name e),
                Set_call (take (if length e = 1 then 6 else 5) (xpath u (map Name e)))
                  \<lparr>XMLName_Local = ''ethernet'', Data = map (snd (versioning u (con_Versioning con s))) e\<rparr> None],
                      snd (con_Set con (take (if length e = 1 then 6 else 5) (xpath u (map Name e))) \<lparr>XMLName_Local = ''ethernet'', Data = map (snd (versioning u (con_Versioning con s))) e\<rparr> s)))
               else (fst (con_ImportInterfaces con vsys (import_names e) (snd (con_Set con (take (if length e = 1 then 6 else 5) (xpath u (map Name e))) \<lparr>XMLName_Local = ''ethernet'', Data = map (snd (versioning u (con_Versioning con s))) e\<rparr> s))),
                     ([Versioning_call (con_Versioning con s),
                LogAction_call ''(set) ethernet interfaces: %v'' (map Name e),
                Set_call (take (if length e = 1 then 6 else 5) (xpath u (map Name e)))
                  \<lparr>XMLName_Local = ''ethernet'', Data = map (snd (versioning u (con_Versioning con s))) e\<rparr> None,
                       ImportInterfaces_call vsys (import_names e)
                         (fst (con_ImportInterfaces con vsys (import_names e) (snd (con_Set con (take (if length e = 1 then 6 else 5) (xpath u (map Name e))) \<lparr>XMLName_Local = ''ethernet'', Data = map (snd (versioning u (con_Versioning con s))) e\<rparr> s))))],
                      snd (con_ImportInterfaces con vsys (import_names e) (snd (con_Set con (take (if length e = 1 then 6 else 5) (xpath u (map Name e))) \<lparr>XMLName_Local = ''ethernet'', Data = map (snd (versioning u (con_Versioning con s))) e\<rparr> s))))))"
    by (simp add: Eth_Set_run [OF ne] Let_def)
  from a assms show "import_calls (calls (Eth_Set u con vsys e ([], s))) =
              (if import_names e = [] then [] else [(vsys, import_names e)])"
    by (simp add: Eth_Set_run [OF ne] Let_def calls_def)
next
  assume a: "fst (con_Edit con (xpath u [Name x]) (snd (versioning u (con_Versioning con s)) x) s) = None"
  from a assms show "Eth_Edit u con vsys x ([], s) =
              (if Mode x = ''ha'' \<or> Mode x = ''aggregate-group''
               then (None,
                     ([Versioning_call (con_Versioning con s),
                LogAction_call ''(edit) ethernet interface %q'' [Name x],
                Edit_call (xpath u [Name x]) (snd (versioning u (con_Versioning con s)) x) None],
                      snd (con_Edit con (xpath u [Name x]) (snd (versioning u (con_Versioning con s)) x) s)))
               else (fst (con_ImportInterfaces con vsys [Name x] (snd (con_Edit con (xpath u [Name x]) (snd (versioning u (con_Versioning con s)) x) s))),
                     ([Versioning_call (con_Versioning con s),
                LogAction_call ''(edit) ethernet interface %q'' [Name x],
                Edit_call (xpath u [Name x]) (snd (versioning u (con_Versioning con s)) x) None,
                       ImportInterfaces_call vsys [Name x]
                         (fst (con_ImportInterfaces con vsys [Name x] (snd (con_Edit con (xpath u [Name x]) (snd (versioning u (con_Versioning con s)) x) s))))],
                      snd (con_ImportInterfaces con vsys [Name x] (snd (con_Edit con (xpath u [Name x]) (snd (versioning u (con_Versioning con s)) x) s))))))"
    by (simp add: Eth_Edit_run Let_def)
  from a assms show "import_calls (calls (Eth_Edit u con vsys x ([], s))) =
              (if Mode x \<noteq> ''ha'' \<and> Mode x \<noteq> ''aggregate-group''
               then [(vsys, [Name x])] else [])"
    by (simp add: Eth_Edit_run Let_def calls_def)
qed

theorem Import_exclusion_witness:
  "Eth_Set sample_util (stub_client version_8_0 None None) ''vsys1'' [named ''ethernet1/1'' ''ha'', named ''ethernet1/2'' ''layer3''] ([], 0) =
     (None,
      ([Versioning_call version_8_0,
        LogAction_call ''(set) ethernet interfaces: %v'' [''ethernet1/1'', ''ethernet1/2''],
        Set_call [''config'', ''devices'', ''entry[localhost.localdomain]'', ''network'',
            ''interface'']
          \<lparr>XMLName_Local = ''ethernet'',
             Data = [Wire_v2 (specify_v2 sample_util (named ''ethernet1/1'' ''ha'')),
                     Wire_v2 (specify_v2 sample_util (named ''ethernet1/2'' ''layer3''))]\<rparr> None,
        ImportInterfaces_call ''vsys1'' [''ethernet1/2''] None], 2)) \<and>
   Eth_Edit sample_util (stub_client version_8_0 None None) ''vsys1'' (named ''ethernet1/3'' ''layer3'') ([], 0) =
     (None,
      ([Versioning_call version_8_0,
        LogAction_call ''(edit) ethernet interface %q'' [''ethernet1/3''],
        Edit_call [''config'', ''devices'', ''entry[localhost.localdomain]'', ''network'',
            ''interface'', ''ethernet'', ''entry[ethernet1/3]'']
          (Wire_v2 (specify_v2 sample_util (named ''ethernet1/3'' ''layer3''))) None,
        ImportInterfaces_call ''vsys1'' [''ethernet1/3''] None], 2))"
proof -
  let ?e = "[named ''ethernet1/1'' ''ha'', named ''ethernet1/2'' ''layer3'']"
  let ?x = "(named ''ethernet1/3'' ''layer3'')"
  have v: "''vsys1'' \<noteq> []" by simp
  have fn: "snd (versioning sample_util version_8_0) = (\<lambda>e. Wire_v2 (specify_v2 sample_util e))"
    by (simp add: versioning_def Gte_def version_8_0_def)
  have ver: "con_Versioning (stub_client version_8_0 None None) 0 = version_8_0"
    by (simp add: stub_client_def)
  have sp: "e \<noteq> [] \<and> fst (con_Set (stub_client version_8_0 None None) (take (if length ?e = 1 then 6 else 5) (xpath sample_util (map Name ?e))) \<lparr>XMLName_Local = ''ethernet'', Data = map (snd (versioning sample_util (con_Versioning (stub_client version_8_0 None None) 0))) ?e\<rparr> 0) = None" if "e = ?e" for e
    by (simp add: stub_client_def that)
  have ep: "fst (con_Edit (stub_client version_8_0 None None) (xpath sample_util [Name ?x]) (snd (versioning sample_util (con_Versioning (stub_client version_8_0 None None) 0)) ?x) 0) = None"
    by (simp add: stub_client_def)
  have facts: "import_names ?e = [''ethernet1/2'']" "map Name ?e = [''ethernet1/1'', ''ethernet1/2'']"
    "Name ?x = ''ethernet1/3''" "Mode ?x = ''layer3''" "length ?e = 2"
    by (simp_all add: import_names_def named_def Entry_zero_def)
  have paths: "take 5 (xpath sample_util [''ethernet1/1'', ''ethernet1/2'']) =
      [''config'', ''devices'', ''entry[localhost.localdomain]'', ''network'', ''interface'']"
    "xpath sample_util [''ethernet1/3''] =
      [''config'', ''devices'', ''entry[localhost.localdomain]'', ''network'', ''interface'',
       ''ethernet'', ''entry[ethernet1/3]'']"
    by (simp_all add: xpath_def sample_util_def)
  note set_run = Import_exclusion [OF v, where e = ?e and con = "stub_client version_8_0 None None"
      and s = 0 and u = sample_util, THEN conjunct1, THEN mp,
      OF sp [OF refl], THEN conjunct1]
  note edit_run = Import_exclusion [OF v, where x = ?x and con = "stub_client version_8_0 None None"
      and s = 0 and u = sample_util, THEN conjunct2, THEN mp,
      OF ep, THEN conjunct1]
  have a: "Eth_Set sample_util (stub_client version_8_0 None None) ''vsys1'' [named ''ethernet1/1'' ''ha'', named ''ethernet1/2'' ''layer3''] ([], 0) =
     (None,
      ([Versioning_call version_8_0,
        LogAction_call ''(set) ethernet interfaces: %v'' [''ethernet1/1'', ''ethernet1/2''],
        Set_call [''config'', ''devices'', ''entry[localhost.localdomain]'', ''network'',
            ''interface'']
          \<lparr>XMLName_Local = ''ethernet'',
             Data = [Wire_v2 (specify_v2 sample_util (named ''ethernet1/1'' ''ha'')),
                     Wire_v2 (specify_v2 sample_util (named ''ethernet1/2'' ''layer3''))]\<rparr> None,
        ImportInterfaces_call ''vsys1'' [''ethernet1/2''] None], 2))"
    using set_run unfolding ver fn facts
    by (simp add: paths stub_client_def)
  have b: "Eth_Edit sample_util (stub_client version_8_0 None None) ''vsys1'' (named ''ethernet1/3'' ''layer3'') ([], 0) =
     (None,
      ([Versioning_call version_8_0,
        LogAction_call ''(edit) ethernet interface %q'' [''ethernet1/3''],
        Edit_call [''config'', ''devices'', ''entry[localhost.localdomain]'', ''network'',
            ''interface'', ''ethernet'', ''entry[ethernet1/3]'']
          (Wire_v2 (specify_v2 sample_util (named ''ethernet1/3'' ''layer3''))) None,
        ImportInterfaces_call ''vsys1'' [''ethernet1/3''] None], 2))"
    using edit_run unfolding ver fn facts paths
    by (simp add: stub_client_def)
  from a b show ?thesis by (rule conjI)
qed

subsection \<open>Delete and the unimport\<close>

text \<open>
  C3 (as stated, it fails): \<^verbatim>\<open>Delete\<close> would call the unimport exactly when the scope is
  not empty.  \<^verbatim>\<open>Delete\<close> has no test of the scope: with the empty scope it calls
  \<^verbatim>\<open>UnimportInterfaces\<close> with the empty scope, before the \<^verbatim>\<open>Delete\<close> primitive.
\<close>

theorem Delete_empty_scope_counterexample:
  "calls (Eth_Delete sample_util (stub_client version_8_0 None None) []
       [IdString ''ethernet1/1''] ([], 0)) =
     [LogAction_call ''(delete) ethernet interface(s): %v'' [''ethernet1/1''],
      UnimportInterfaces_call [] [''ethernet1/1''] None,
      Delete_call [''config'', ''devices'', ''entry[localhost.localdomain]'', ''network'',
        ''interface'', ''ethernet'', ''entry[ethernet1/1]''] None]"
  by (simp add: Eth_Delete_run sample_simps)

text \<open>
  C3 (amended): for every identifier list that is not empty and holds strings and entries
  only, and for every scope, empty or not, \<^verbatim>\<open>Delete\<close> calls \<^verbatim>\<open>UnimportInterfaces\<close> once,
  with the scope as given and the names of all the identifiers (no mode is left out); the
  call comes before the \<^verbatim>\<open>Delete\<close> primitive, which is the only call that may follow.
\<close>

theorem Delete_unimports_every_name:
  assumes "e \<noteq> []" and "list_all is_name e"
  shows "\<exists>r rest.
      calls (Eth_Delete u con vsys e ([], s)) =
        [LogAction_call ''(delete) ethernet interface(s): %v'' (map name_of e),
         UnimportInterfaces_call vsys (map name_of e) r] @ rest \<and>
      (rest = [] \<or> (\<exists>r'. rest = [Delete_call (xpath u (map name_of e)) r']))"
  using assms by (simp add: Eth_Delete_run calls_def Let_def)

theorem Delete_unimports_every_name_witness:
  "[IdString ''ethernet1/1'', IdEntry (named ''ethernet1/2'' ''ha'')] \<noteq> [] \<and>
   list_all is_name [IdString ''ethernet1/1'', IdEntry (named ''ethernet1/2'' ''ha'')] \<and>
   (\<exists>r rest.
      calls (Eth_Delete sample_util (stub_client version_8_0 None None) []
          [IdString ''ethernet1/1'', IdEntry (named ''ethernet1/2'' ''ha'')] ([], 0)) =
        [LogAction_call ''(delete) ethernet interface(s): %v'' [''ethernet1/1'', ''ethernet1/2''],
         UnimportInterfaces_call [] [''ethernet1/1'', ''ethernet1/2''] r] @ rest \<and>
      (rest = [] \<or> (\<exists>r'. rest = [Delete_call (xpath sample_util [''ethernet1/1'', ''ethernet1/2'']) r'])))"
proof -
  have a: "[IdString ''ethernet1/1'', IdEntry (named ''ethernet1/2'' ''ha'')] \<noteq> []" by simp
  have b: "list_all is_name [IdString ''ethernet1/1'', IdEntry (named ''ethernet1/2'' ''ha'')]"
    by simp
  from Delete_unimports_every_name [OF a b, of sample_util "stub_client version_8_0 None None" "[]" 0]
  show ?thesis by (simp add: named_def Entry_zero_def)
qed

lemma delete_third:
  "i < length [LogAction_call m n, UnimportInterfaces_call v ns r0, Delete_call p r1] \<and>
   [LogAction_call m n, UnimportInterfaces_call v ns r0, Delete_call p r1] ! i = Delete_call path r
   \<longrightarrow> (\<exists>j names r'. j < i \<and>
          [LogAction_call m n, UnimportInterfaces_call v ns r0, Delete_call p r1] ! j
            = UnimportInterfaces_call v names r')"
proof
  assume a: "i < length [LogAction_call m n, UnimportInterfaces_call v ns r0, Delete_call p r1] \<and>
   [LogAction_call m n, UnimportInterfaces_call v ns r0, Delete_call p r1] ! i = Delete_call path r"
  then have "i = 0 \<or> i = 1 \<or> i = 2" by auto
  with a have i: "i = 2" by auto
  have "(1::nat) < 2 \<and> [LogAction_call m n, UnimportInterfaces_call v ns r0, Delete_call p r1] ! 1
            = UnimportInterfaces_call v ns r0" by simp
  with i show "\<exists>j names r'. j < i \<and>
          [LogAction_call m n, UnimportInterfaces_call v ns r0, Delete_call p r1] ! j
            = UnimportInterfaces_call v names r'" by blast
qed

lemma no_delete_of_two:
  "\<not> (i < length [LogAction_call m n, UnimportInterfaces_call v ns r0] \<and>
      [LogAction_call m n, UnimportInterfaces_call v ns r0] ! i = Delete_call path r)"
proof
  assume a: "i < length [LogAction_call m n, UnimportInterfaces_call v ns r0] \<and>
      [LogAction_call m n, UnimportInterfaces_call v ns r0] ! i = Delete_call path r"
  then have "i = 0 \<or> i = 1" by auto
  with a show False by auto
qed

text \<open>
  The order of the calls in any run of \<^verbatim>\<open>Delete\<close>, whatever the identifiers are.
\<close>

lemma Delete_call_order:
  "(\<forall>i path r. i < length (calls (Eth_Delete u con vsys e ([], s))) \<and>
       calls (Eth_Delete u con vsys e ([], s)) ! i = Delete_call path r \<longrightarrow>
       (\<exists>j names r'. j < i \<and>
          calls (Eth_Delete u con vsys e ([], s)) ! j = UnimportInterfaces_call vsys names r')) \<and>
   (\<forall>names x. UnimportInterfaces_call vsys names (Some x)
        \<in> set (calls (Eth_Delete u con vsys e ([], s))) \<longrightarrow>
       returned (Eth_Delete u con vsys e ([], s)) = Some x \<and>
       (\<forall>path r. Delete_call path r \<notin> set (calls (Eth_Delete u con vsys e ([], s)))))"
proof (cases "e \<noteq> [] \<and> list_all is_name e")
  case False
  then have "calls (Eth_Delete u con vsys e ([], s)) = []"
    using Eth_Delete_no_call [of e u con vsys "[]" s] by blast
  then show ?thesis by simp
next
  case True
  then have ne: "e \<noteq> []" and ok: "list_all is_name e" by simp_all
  show ?thesis
  proof (cases "fst (con_UnimportInterfaces con vsys (map name_of e) s)")
    case None
    then have c: "calls (Eth_Delete u con vsys e ([], s)) =
       [LogAction_call ''(delete) ethernet interface(s): %v'' (map name_of e),
        UnimportInterfaces_call vsys (map name_of e) None,
        Delete_call (xpath u (map name_of e))
          (fst (con_Delete con (xpath u (map name_of e))
             (snd (con_UnimportInterfaces con vsys (map name_of e) s))))]"
      by (simp add: Eth_Delete_run [OF ne ok] calls_def Let_def)
    show ?thesis
      unfolding c
    proof (intro conjI allI)
      fix i path r
      show "i < length [LogAction_call ''(delete) ethernet interface(s): %v'' (map name_of e),
                UnimportInterfaces_call vsys (map name_of e) None,
                Delete_call (xpath u (map name_of e))
                  (fst (con_Delete con (xpath u (map name_of e))
                     (snd (con_UnimportInterfaces con vsys (map name_of e) s))))] \<and>
            [LogAction_call ''(delete) ethernet interface(s): %v'' (map name_of e),
                UnimportInterfaces_call vsys (map name_of e) None,
                Delete_call (xpath u (map name_of e))
                  (fst (con_Delete con (xpath u (map name_of e))
                     (snd (con_UnimportInterfaces con vsys (map name_of e) s))))] ! i
              = Delete_call path r \<longrightarrow>
            (\<exists>j names r'. j < i \<and>
               [LogAction_call ''(delete) ethernet interface(s): %v'' (map name_of e),
                UnimportInterfaces_call vsys (map name_of e) None,
                Delete_call (xpath u (map name_of e))
                  (fst (con_Delete con (xpath u (map name_of e))
                     (snd (con_UnimportInterfaces con vsys (map name_of e) s))))] ! j
                 = UnimportInterfaces_call vsys names r')"
        by (rule delete_third)
    qed simp
  next
    case (Some x)
    then have c: "calls (Eth_Delete u con vsys e ([], s)) =
       [LogAction_call ''(delete) ethernet interface(s): %v'' (map name_of e),
        UnimportInterfaces_call vsys (map name_of e) (Some x)]"
      and r: "returned (Eth_Delete u con vsys e ([], s)) = Some x"
      by (simp_all add: Eth_Delete_run [OF ne ok] calls_def returned_def Let_def)
    show ?thesis
      unfolding c r
    proof (intro conjI allI)
      fix i path r
      show "i < length [LogAction_call ''(delete) ethernet interface(s): %v'' (map name_of e),
                UnimportInterfaces_call vsys (map name_of e) (Some x)] \<and>
            [LogAction_call ''(delete) ethernet interface(s): %v'' (map name_of e),
                UnimportInterfaces_call vsys (map name_of e) (Some x)] ! i
              = Delete_call path r \<longrightarrow>
            (\<exists>j names r'. j < i \<and>
               [LogAction_call ''(delete) ethernet interface(s): %v'' (map name_of e),
                UnimportInterfaces_call vsys (map name_of e) (Some x)] ! j
                 = UnimportInterfaces_call vsys names r')"
        using no_delete_of_two by blast
    qed simp
  qed
qed

text \<open>
  C6: for every identifier list that is not empty and holds strings and entries only, and
  for every scope, the run of \<^verbatim>\<open>Delete\<close> is decided by the answer of the unimport.  When
  \<^verbatim>\<open>UnimportInterfaces\<close> answers an error, \<^verbatim>\<open>Delete\<close> returns that error and its calls are
  the log line and the unimport: the \<^verbatim>\<open>Delete\<close> primitive is not called, and the state is
  the one the unimport left.  When it answers no error, the calls are the log line, the
  unimport and then the \<^verbatim>\<open>Delete\<close> primitive on the entry path of all the names, whose
  answer \<^verbatim>\<open>Delete\<close> returns.  And in every run, whatever the identifiers, a call of the
  \<^verbatim>\<open>Delete\<close> primitive comes after a call of the unimport for the given scope, and an
  unimport that answered an error is followed by no call of the \<^verbatim>\<open>Delete\<close> primitive.
\<close>

theorem Delete_ordering:
  "(e \<noteq> [] \<and> list_all is_name e \<longrightarrow>
      (\<forall>x. fst (con_UnimportInterfaces con vsys (map name_of e) s) = Some x \<longrightarrow>
         Eth_Delete u con vsys e ([], s) =
           (Some x,
            ([LogAction_call ''(delete) ethernet interface(s): %v'' (map name_of e),
              UnimportInterfaces_call vsys (map name_of e) (Some x)],
             snd (con_UnimportInterfaces con vsys (map name_of e) s)))) \<and>
      (fst (con_UnimportInterfaces con vsys (map name_of e) s) = None \<longrightarrow>
         Eth_Delete u con vsys e ([], s) =
           (fst (con_Delete con (xpath u (map name_of e)) (snd (con_UnimportInterfaces con vsys (map name_of e) s))),
            ([LogAction_call ''(delete) ethernet interface(s): %v'' (map name_of e),
              UnimportInterfaces_call vsys (map name_of e) None,
              Delete_call (xpath u (map name_of e))
                (fst (con_Delete con (xpath u (map name_of e)) (snd (con_UnimportInterfaces con vsys (map name_of e) s))))],
             snd (con_Delete con (xpath u (map name_of e)) (snd (con_UnimportInterfaces con vsys (map name_of e) s))))))) \<and>
   (\<forall>i path r. i < length (calls (Eth_Delete u con vsys e ([], s))) \<and>
       calls (Eth_Delete u con vsys e ([], s)) ! i = Delete_call path r \<longrightarrow>
       (\<exists>j names r'. j < i \<and>
          calls (Eth_Delete u con vsys e ([], s)) ! j = UnimportInterfaces_call vsys names r')) \<and>
   (\<forall>names x. UnimportInterfaces_call vsys names (Some x) \<in> set (calls (Eth_Delete u con vsys e ([], s))) \<longrightarrow>
       returned (Eth_Delete u con vsys e ([], s)) = Some x \<and>
       (\<forall>path r. Delete_call path r \<notin> set (calls (Eth_Delete u con vsys e ([], s)))))"
proof (rule conjI)
  show "(e \<noteq> [] \<and> list_all is_name e \<longrightarrow>
      (\<forall>x. fst (con_UnimportInterfaces con vsys (map name_of e) s) = Some x \<longrightarrow>
         Eth_Delete u con vsys e ([], s) =
           (Some x,
            ([LogAction_call ''(delete) ethernet interface(s): %v'' (map name_of e),
              UnimportInterfaces_call vsys (map name_of e) (Some x)],
             snd (con_UnimportInterfaces con vsys (map name_of e) s)))) \<and>
      (fst (con_UnimportInterfaces con vsys (map name_of e) s) = None \<longrightarrow>
         Eth_Delete u con vsys e ([], s) =
           (fst (con_Delete con (xpath u (map name_of e)) (snd (con_UnimportInterfaces con vsys (map name_of e) s))),
            ([LogAction_call ''(delete) ethernet interface(s): %v'' (map name_of e),
              UnimportInterfaces_call vsys (map name_of e) None,
              Delete_call (xpath u (map name_of e))
                (fst (con_Delete con (xpath u (map name_of e)) (snd (con_UnimportInterfaces con vsys (map name_of e) s))))],
             snd (con_Delete con (xpath u (map name_of e)) (snd (con_UnimportInterfaces con vsys (map name_of e) s)))))))"
  proof
    assume "e \<noteq> [] \<and> list_all is_name e"
    then have ne: "e \<noteq> []" and ok: "list_all is_name e" by simp_all
    show "(\<forall>x. fst (con_UnimportInterfaces con vsys (map name_of e) s) = Some x \<longrightarrow>
         Eth_Delete u con vsys e ([], s) =
           (Some x,
            ([LogAction_call ''(delete) ethernet interface(s): %v'' (map name_of e),
              UnimportInterfaces_call vsys (map name_of e) (Some x)],
             snd (con_UnimportInterfaces con vsys (map name_of e) s)))) \<and>
      (fst (con_UnimportInterfaces con vsys (map name_of e) s) = None \<longrightarrow>
         Eth_Delete u con vsys e ([], s) =
           (fst (con_Delete con (xpath u (map name_of e)) (snd (con_UnimportInterfaces con vsys (map name_of e) s))),
            ([LogAction_call ''(delete) ethernet interface(s): %v'' (map name_of e),
              UnimportInterfaces_call vsys (map name_of e) None,
              Delete_call (xpath u (map name_of e))
                (fst (con_Delete con (xpath u (map name_of e)) (snd (con_UnimportInterfaces con vsys (map name_of e) s))))],
             snd (con_Delete con (xpath u (map name_of e)) (snd (con_UnimportInterfaces con vsys (map name_of e) s))))))"
      by (simp add: Eth_Delete_run [OF ne ok] Let_def)
  qed
  show "(\<forall>i path r. i < length (calls (Eth_Delete u con vsys e ([], s))) \<and>
       calls (Eth_Delete u con vsys e ([], s)) ! i = Delete_call path r \<longrightarrow>
       (\<exists>j names r'. j < i \<and>
          calls (Eth_Delete u con vsys e ([], s)) ! j = UnimportInterfaces_call vsys names r')) \<and>
   (\<forall>names x. UnimportInterfaces_call vsys names (Some x) \<in> set (calls (Eth_Delete u con vsys e ([], s))) \<longrightarrow>
       returned (Eth_Delete u con vsys e ([], s)) = Some x \<and>
       (\<forall>path r. Delete_call path r \<notin> set (calls (Eth_Delete u con vsys e ([], s)))))"
    by (rule Delete_call_order)
qed

theorem Delete_ordering_witness:
  "Eth_Delete sample_util (stub_client version_8_0 None None) ''vsys1''
       [IdString ''ethernet1/1'', IdEntry (named ''ethernet1/2'' ''ha'')] ([], 0) =
     (None,
      ([LogAction_call ''(delete) ethernet interface(s): %v'' [''ethernet1/1'', ''ethernet1/2''],
        UnimportInterfaces_call ''vsys1'' [''ethernet1/1'', ''ethernet1/2''] None,
        Delete_call [''config'', ''devices'', ''entry[localhost.localdomain]'', ''network'',
          ''interface'', ''ethernet'', ''entry[ethernet1/1][ethernet1/2]''] None], 2)) \<and>
   Eth_Delete sample_util (stub_client version_8_0 None (Some (TransportError ''timeout'')))
       ''vsys1'' [IdString ''ethernet1/1'', IdEntry (named ''ethernet1/2'' ''ha'')] ([], 0) =
     (Some (TransportError ''timeout''),
      ([LogAction_call ''(delete) ethernet interface(s): %v'' [''ethernet1/1'', ''ethernet1/2''],
        UnimportInterfaces_call ''vsys1'' [''ethernet1/1'', ''ethernet1/2'']
          (Some (TransportError ''timeout''))], 1))"
proof -
  let ?e = "[IdString ''ethernet1/1'', IdEntry (named ''ethernet1/2'' ''ha'')]"
  have wf: "?e \<noteq> [] \<and> list_all is_name ?e" by simp
  have names: "map name_of ?e = [''ethernet1/1'', ''ethernet1/2'']"
    by (simp add: named_def Entry_zero_def)
  have path: "xpath sample_util [''ethernet1/1'', ''ethernet1/2''] =
      [''config'', ''devices'', ''entry[localhost.localdomain]'', ''network'',
       ''interface'', ''ethernet'', ''entry[ethernet1/1][ethernet1/2]'']"
    by (simp add: xpath_def sample_util_def)
  have okay: "fst (con_UnimportInterfaces (stub_client version_8_0 None None) ''vsys1''
       (map name_of ?e) 0) = None"
    by (simp add: stub_client_def)
  have bad: "fst (con_UnimportInterfaces
       (stub_client version_8_0 None (Some (TransportError ''timeout''))) ''vsys1''
       (map name_of ?e) 0) = Some (TransportError ''timeout'')"
    by (simp add: stub_client_def)
  note good_run = Delete_ordering [of ?e "stub_client version_8_0 None None" "''vsys1''" 0
      sample_util, THEN conjunct1, THEN mp, OF wf, THEN conjunct2, THEN mp, OF okay]
  note bad_run = Delete_ordering [of ?e
      "stub_client version_8_0 None (Some (TransportError ''timeout''))" "''vsys1''" 0
      sample_util, THEN conjunct1, THEN mp, OF wf, THEN conjunct1, THEN spec, THEN mp, OF bad]
  have a: "Eth_Delete sample_util (stub_client version_8_0 None None) ''vsys1''
       [IdString ''ethernet1/1'', IdEntry (named ''ethernet1/2'' ''ha'')] ([], 0) =
     (None,
      ([LogAction_call ''(delete) ethernet interface(s): %v'' [''ethernet1/1'', ''ethernet1/2''],
        UnimportInterfaces_call ''vsys1'' [''ethernet1/1'', ''ethernet1/2''] None,
        Delete_call [''config'', ''devices'', ''entry[localhost.localdomain]'', ''network'',
          ''interface'', ''ethernet'', ''entry[ethernet1/1][ethernet1/2]''] None], 2))"
    using good_run unfolding names path by (simp add: stub_client_def)
  have b: "Eth_Delete sample_util (stub_client version_8_0 None (Some (TransportError ''timeout'')))
       ''vsys1'' [IdString ''ethernet1/1'', IdEntry (named ''ethernet1/2'' ''ha'')] ([], 0) =
     (Some (TransportError ''timeout''),
      ([LogAction_call ''(delete) ethernet interface(s): %v'' [''ethernet1/1'', ''ethernet1/2''],
        UnimportInterfaces_call ''vsys1'' [''ethernet1/1'', ''ethernet1/2'']
          (Some (TransportError ''timeout''))], 1))"
    using bad_run unfolding names by (simp add: stub_client_def)
  from a b show ?thesis by (rule conjI)
qed

subsection \<open>The choice of the wire format\<close>

lemma Gte_trans: "Gte a b \<Longrightarrow> Gte b c \<Longrightarrow> Gte a c"
  by (auto simp add: Gte_def split: if_splits)

text \<open>
  C5: for every device version \<^verbatim>\<open>versioning\<close> returns one of two pairs, the pair of
  version 2 when the version is at least 7.1.0 and the pair of version 1 otherwise, and
  the two pairs differ.  Two versions on the same side of 7.1.0 get the same pair; when
  a version gets the pair of version 2 so does every later one, and when a version gets
  the pair of version 1 so does every earlier one: along increasing versions the choice
  changes once and does not change back.
\<close>

theorem versioning_total_monotone:
  "versioning u v =
     (if Gte v \<lparr>Major = 7, Minor = 1, Patch = 0, Suffix = []\<rparr>
      then (Container_v2 \<lparr>Answer_v2 = entry_v2_zero\<rparr>, \<lambda>e. Wire_v2 (specify_v2 u e))
      else (Container_v1 \<lparr>Answer_v1 = entry_v1_zero\<rparr>, \<lambda>e. Wire_v1 (specify_v1 u e))) \<and>
   (Container_v2 \<lparr>Answer_v2 = entry_v2_zero\<rparr>, \<lambda>e. Wire_v2 (specify_v2 u e)) \<noteq>
     (Container_v1 \<lparr>Answer_v1 = entry_v1_zero\<rparr>, \<lambda>e. Wire_v1 (specify_v1 u e)) \<and>
   (Gte w v \<and> (Gte v \<lparr>Major = 7, Minor = 1, Patch = 0, Suffix = []\<rparr> \<longleftrightarrow>
                Gte w \<lparr>Major = 7, Minor = 1, Patch = 0, Suffix = []\<rparr>)
      \<longrightarrow> versioning u v = versioning u w) \<and>
   (Gte w v \<and> Gte v \<lparr>Major = 7, Minor = 1, Patch = 0, Suffix = []\<rparr>
      \<longrightarrow> versioning u w = (Container_v2 \<lparr>Answer_v2 = entry_v2_zero\<rparr>, \<lambda>e. Wire_v2 (specify_v2 u e))) \<and>
   (Gte w v \<and> \<not> Gte w \<lparr>Major = 7, Minor = 1, Patch = 0, Suffix = []\<rparr>
      \<longrightarrow> versioning u v = (Container_v1 \<lparr>Answer_v1 = entry_v1_zero\<rparr>, \<lambda>e. Wire_v1 (specify_v1 u e)))"
proof (intro conjI impI)
  show "versioning u v =
     (if Gte v \<lparr>Major = 7, Minor = 1, Patch = 0, Suffix = []\<rparr>
      then (Container_v2 \<lparr>Answer_v2 = entry_v2_zero\<rparr>, \<lambda>e. Wire_v2 (specify_v2 u e))
      else (Container_v1 \<lparr>Answer_v1 = entry_v1_zero\<rparr>, \<lambda>e. Wire_v1 (specify_v1 u e)))"
    by (simp add: versioning_def)
  show "(Container_v2 \<lparr>Answer_v2 = entry_v2_zero\<rparr>, \<lambda>e. Wire_v2 (specify_v2 u e)) \<noteq>
     (Container_v1 \<lparr>Answer_v1 = entry_v1_zero\<rparr>, \<lambda>e. Wire_v1 (specify_v1 u e))"
    by simp
next
  assume "Gte w v \<and> (Gte v \<lparr>Major = 7, Minor = 1, Patch = 0, Suffix = []\<rparr> \<longleftrightarrow>
                Gte w \<lparr>Major = 7, Minor = 1, Patch = 0, Suffix = []\<rparr>)"
  then show "versioning u v = versioning u w" by (simp add: versioning_def)
next
  assume "Gte w v \<and> Gte v \<lparr>Major = 7, Minor = 1, Patch = 0, Suffix = []\<rparr>"
  then have "Gte w \<lparr>Major = 7, Minor = 1, Patch = 0, Suffix = []\<rparr>"
    using Gte_trans by blast
  then show "versioning u w = (Container_v2 \<lparr>Answer_v2 = entry_v2_zero\<rparr>, \<lambda>e. Wire_v2 (specify_v2 u e))"
    by (simp add: versioning_def)
next
  assume a: "Gte w v \<and> \<not> Gte w \<lparr>Major = 7, Minor = 1, Patch = 0, Suffix = []\<rparr>"
  then have "\<not> Gte v \<lparr>Major = 7, Minor = 1, Patch = 0, Suffix = []\<rparr>"
    using Gte_trans by blast
  then show "versioning u v = (Container_v1 \<lparr>Answer_v1 = entry_v1_zero\<rparr>, \<lambda>e. Wire_v1 (specify_v1 u e))"
    by (simp add: versioning_def)
qed

theorem versioning_total_monotone_witness:
  "Gte version_8_0 \<lparr>Major = 7, Minor = 1, Patch = 0, Suffix = []\<rparr> \<and>
   Gte \<lparr>Major = 7, Minor = 1, Patch = 0, Suffix = []\<rparr> \<lparr>Major = 7, Minor = 1, Patch = 0, Suffix = []\<rparr> \<and>
   versioning sample_util version_8_0 =
     (Container_v2 \<lparr>Answer_v2 = entry_v2_zero\<rparr>, \<lambda>e. Wire_v2 (specify_v2 sample_util e)) \<and>
   Gte \<lparr>Major = 7, Minor = 0, Patch = 9, Suffix = []\<rparr> version_6_1 \<and>
   \<not> Gte \<lparr>Major = 7, Minor = 0, Patch = 9, Suffix = []\<rparr> \<lparr>Major = 7, Minor = 1, Patch = 0, Suffix = []\<rparr> \<and>
   versioning sample_util version_6_1 =
     (Container_v1 \<lparr>Answer_v1 = entry_v1_zero\<rparr>, \<lambda>e. Wire_v1 (specify_v1 sample_util e)) \<and>
   versioning sample_util version_6_1 = versioning sample_util \<lparr>Major = 7, Minor = 0, Patch = 9, Suffix = []\<rparr>"
  using versioning_total_monotone [of sample_util "\<lparr>Major = 7, Minor = 1, Patch = 0, Suffix = []\<rparr>" version_8_0]
    versioning_total_monotone [of sample_util version_6_1 "\<lparr>Major = 7, Minor = 0, Patch = 9, Suffix = []\<rparr>"]
  by (auto simp add: Gte_def version_8_0_def version_6_1_def)

subsection \<open>Normalize in closed form\<close>

text \<open>
  The conditional stores of \<^verbatim>\<open>Normalize\<close> move into the fields they assign, and each case
  of the \<^verbatim>\<open>switch\<close> gives the entry that \<^verbatim>\<open>Normalize\<close> returns as one record.
\<close>

lemma fragment_case:
  "(case x of Some text \<Rightarrow> ans\<lparr>raw := g text\<rparr> | None \<Rightarrow> ans) =
     ans\<lparr>raw := (case x of Some text \<Rightarrow> g text | None \<Rightarrow> raw ans)\<rparr>"
  by (cases x) simp_all

lemma dhcp_case:
  "(case x of Some d \<Rightarrow> ans\<lparr>EnableDhcp := a d, CreateDhcpDefaultRoute := b d,
        DhcpDefaultRouteMetric := m d\<rparr> | None \<Rightarrow> ans) =
     ans\<lparr>EnableDhcp := (case x of Some d \<Rightarrow> a d | None \<Rightarrow> EnableDhcp ans),
         CreateDhcpDefaultRoute := (case x of Some d \<Rightarrow> b d | None \<Rightarrow> CreateDhcpDefaultRoute ans),
         DhcpDefaultRouteMetric := (case x of Some d \<Rightarrow> m d | None \<Rightarrow> DhcpDefaultRouteMetric ans)\<rparr>"
  by (cases x) simp_all

lemma finish_if:
  "(if b then ans\<lparr>raw := None\<rparr> else ans) = ans\<lparr>raw := (if b then None else raw ans)\<rparr>"
  by simp

lemma Normalize_v1_layer3:
  assumes "v1_ModeL3 (Answer_v1 c) = Some l3"
  shows "Normalize_v1 u c =
    \<lparr>Name = v1_Name (Answer_v1 c), Mode = ''layer3'',
     StaticIps = EntToStr u (l3v1_StaticIps l3),
     EnableDhcp = (case l3v1_Dhcp l3 of None \<Rightarrow> False | Some d \<Rightarrow> AsBool u (Enable d)),
     CreateDhcpDefaultRoute =
       (case l3v1_Dhcp l3 of None \<Rightarrow> False | Some d \<Rightarrow> AsBool u (CreateDefaultRoute d)),
     DhcpDefaultRouteMetric = (case l3v1_Dhcp l3 of None \<Rightarrow> 0 | Some d \<Rightarrow> Metric d),
     Ipv6Enabled = AsBool u (Enabled (l3v1_Ipv6 l3)),
     ManagementProfile = l3v1_ManagementProfile l3,
     Mtu = l3v1_Mtu l3,
     AdjustTcpMss = AsBool u (l3v1_AdjustTcpMss l3),
     NetflowProfile = l3v1_NetflowProfile l3,
     LldpEnabled = False, LldpProfile = [],
     LinkSpeed = v1_LinkSpeed (Answer_v1 c), LinkDuplex = v1_LinkDuplex (Answer_v1 c),
     LinkState = v1_LinkState (Answer_v1 c), AggregateGroup = [],
     Comment = v1_Comment (Answer_v1 c), Ipv4MssAdjust = 0, Ipv6MssAdjust = 0,
     raw = (if l3v1_Arp l3 = None \<and> l3v1_Subinterface l3 = None \<and> Address (l3v1_Ipv6 l3) = None
            then None
            else Some (\<lambda>k. if k = ''ipv6'' then map_option (CleanRawXml u) (Address (l3v1_Ipv6 l3))
                   else if k = ''l3subinterface''
                     then map_option (CleanRawXml u) (l3v1_Subinterface l3)
                   else if k = ''arp'' then map_option (CleanRawXml u) (l3v1_Arp l3)
                   else None))\<rparr>"
  unfolding Normalize_v1_def Let_def assms option.case fragment_case dhcp_case finish_if
  by (cases "l3v1_Dhcp l3"; cases "l3v1_Arp l3"; cases "l3v1_Subinterface l3";
      cases "Address (l3v1_Ipv6 l3)")
     (auto simp add: Entry_zero_def raw_store_def raw_len_is_0_def fun_eq_iff)

lemma Normalize_v1_layer2:
  assumes "v1_ModeL3 (Answer_v1 c) = None" "v1_ModeL2 (Answer_v1 c) = Some l2"
  shows "Normalize_v1 u c =
    Entry_zero\<lparr>Name := v1_Name (Answer_v1 c), Mode := ''layer2'',
     NetflowProfile := om_NetflowProfile l2,
     LldpEnabled := AsBool u (om_LldpEnabled l2), LldpProfile := om_LldpProfile l2,
     LinkSpeed := v1_LinkSpeed (Answer_v1 c), LinkDuplex := v1_LinkDuplex (Answer_v1 c),
     LinkState := v1_LinkState (Answer_v1 c), 
     Comment := v1_Comment (Answer_v1 c),
     raw := (case om_Subinterface l2 of None \<Rightarrow> None
             | Some text \<Rightarrow> Some [''l2subinterface'' \<mapsto> CleanRawXml u text])\<rparr>"
  using assms
  by (simp add: Normalize_v1_def Let_def Entry_zero_def raw_store_def raw_len_is_0_def
      split: option.splits)

lemma Normalize_v1_vwire:
  assumes "v1_ModeL3 (Answer_v1 c) = None" "v1_ModeL2 (Answer_v1 c) = None"
    "v1_ModeVwire (Answer_v1 c) = Some vw"
  shows "Normalize_v1 u c =
    Entry_zero\<lparr>Name := v1_Name (Answer_v1 c), Mode := ''virtual-wire'',
     NetflowProfile := om_NetflowProfile vw,
     LldpEnabled := AsBool u (om_LldpEnabled vw), LldpProfile := om_LldpProfile vw,
     LinkSpeed := v1_LinkSpeed (Answer_v1 c), LinkDuplex := v1_LinkDuplex (Answer_v1 c),
     LinkState := v1_LinkState (Answer_v1 c), 
     Comment := v1_Comment (Answer_v1 c)\<rparr>"
  using assms
  by (simp add: Normalize_v1_def Let_def Entry_zero_def raw_store_def raw_len_is_0_def)

lemma Normalize_v1_empty_modes:
  assumes "v1_ModeL3 (Answer_v1 c) = None" "v1_ModeL2 (Answer_v1 c) = None"
    "v1_ModeVwire (Answer_v1 c) = None"
  shows "Normalize_v1 u c =
    Entry_zero\<lparr>Name := v1_Name (Answer_v1 c),
     Mode := (if v1_TapMode (Answer_v1 c) \<noteq> None then ''tap''
              else if v1_HaMode (Answer_v1 c) \<noteq> None then ''ha''
              else if v1_DecryptMirrorMode (Answer_v1 c) \<noteq> None then ''decrypt-mirror''
              else if v1_AggregateGroupMode (Answer_v1 c) \<noteq> None then ''aggregate-group''
              else []),
     LinkSpeed := v1_LinkSpeed (Answer_v1 c), LinkDuplex := v1_LinkDuplex (Answer_v1 c),
     LinkState := v1_LinkState (Answer_v1 c), 
     Comment := v1_Comment (Answer_v1 c)\<rparr>"
  using assms
  by (simp add: Normalize_v1_def Let_def Entry_zero_def raw_store_def raw_len_is_0_def
      split: option.splits)

lemma Normalize_v2_layer3:
  assumes "v2_ModeL3 (Answer_v2 c) = Some l3"
  shows "Normalize_v2 u c =
    \<lparr>Name = v2_Name (Answer_v2 c), Mode = ''layer3'',
     StaticIps = EntToStr u (l3v2_StaticIps l3),
     EnableDhcp = (case l3v2_Dhcp l3 of None \<Rightarrow> False | Some d \<Rightarrow> AsBool u (Enable d)),
     CreateDhcpDefaultRoute =
       (case l3v2_Dhcp l3 of None \<Rightarrow> False | Some d \<Rightarrow> AsBool u (CreateDefaultRoute d)),
     DhcpDefaultRouteMetric = (case l3v2_Dhcp l3 of None \<Rightarrow> 0 | Some d \<Rightarrow> Metric d),
     Ipv6Enabled = AsBool u (Enabled (l3v2_Ipv6 l3)),
     ManagementProfile = l3v2_ManagementProfile l3,
     Mtu = l3v2_Mtu l3,
     AdjustTcpMss = AsBool u (l3v2_AdjustTcpMss l3),
     NetflowProfile = l3v2_NetflowProfile l3,
     LldpEnabled = False, LldpProfile = [],
     LinkSpeed = v2_LinkSpeed (Answer_v2 c), LinkDuplex = v2_LinkDuplex (Answer_v2 c),
     LinkState = v2_LinkState (Answer_v2 c), AggregateGroup = [],
     Comment = v2_Comment (Answer_v2 c), Ipv4MssAdjust = l3v2_Ipv4MssAdjust l3, Ipv6MssAdjust = l3v2_Ipv6MssAdjust l3,
     raw = (if l3v2_Arp l3 = None \<and> l3v2_Subinterface l3 = None \<and> Address (l3v2_Ipv6 l3) = None
            then None
            else Some (\<lambda>k. if k = ''ipv6'' then map_option (CleanRawXml u) (Address (l3v2_Ipv6 l3))
                   else if k = ''l3subinterface''
                     then map_option (CleanRawXml u) (l3v2_Subinterface l3)
                   else if k = ''arp'' then map_option (CleanRawXml u) (l3v2_Arp l3)
                   else None))\<rparr>"
  unfolding Normalize_v2_def Let_def assms option.case fragment_case dhcp_case finish_if
  by (cases "l3v2_Dhcp l3"; cases "l3v2_Arp l3"; cases "l3v2_Subinterface l3";
      cases "Address (l3v2_Ipv6 l3)")
     (auto simp add: Entry_zero_def raw_store_def raw_len_is_0_def fun_eq_iff)

lemma Normalize_v2_layer2:
  assumes "v2_ModeL3 (Answer_v2 c) = None" "v2_ModeL2 (Answer_v2 c) = Some l2"
  shows "Normalize_v2 u c =
    Entry_zero\<lparr>Name := v2_Name (Answer_v2 c), Mode := ''layer2'',
     NetflowProfile := om_NetflowProfile l2,
     LldpEnabled := AsBool u (om_LldpEnabled l2), LldpProfile := om_LldpProfile l2,
     LinkSpeed := v2_LinkSpeed (Answer_v2 c), LinkDuplex := v2_LinkDuplex (Answer_v2 c),
     LinkState := v2_LinkState (Answer_v2 c), 
     Comment := v2_Comment (Answer_v2 c),
     raw := (case om_Subinterface l2 of None \<Rightarrow> None
             | Some text \<Rightarrow> Some [''l2subinterface'' \<mapsto> CleanRawXml u text])\<rparr>"
  using assms
  by (simp add: Normalize_v2_def Let_def Entry_zero_def raw_store_def raw_len_is_0_def
      split: option.splits)

lemma Normalize_v2_vwire:
  assumes "v2_ModeL3 (Answer_v2 c) = None" "v2_ModeL2 (Answer_v2 c) = None"
    "v2_ModeVwire (Answer_v2 c) = Some vw"
  shows "Normalize_v2 u c =
    Entry_zero\<lparr>Name := v2_Name (Answer_v2 c), Mode := ''virtual-wire'',
     NetflowProfile := om_NetflowProfile vw,
     LldpEnabled := AsBool u (om_LldpEnabled vw), LldpProfile := om_LldpProfile vw,
     LinkSpeed := v2_LinkSpeed (Answer_v2 c), LinkDuplex := v2_LinkDuplex (Answer_v2 c),
     LinkState := v2_LinkState (Answer_v2 c), 
     Comment := v2_Comment (Answer_v2 c)\<rparr>"
  using assms
  by (simp add: Normalize_v2_def Let_def Entry_zero_def raw_store_def raw_len_is_0_def)

lemma Normalize_v2_empty_modes:
  assumes "v2_ModeL3 (Answer_v2 c) = None" "v2_ModeL2 (Answer_v2 c) = None"
    "v2_ModeVwire (Answer_v2 c) = None"
  shows "Normalize_v2 u c =
    Entry_zero\<lparr>Name := v2_Name (Answer_v2 c),
     Mode := (if v2_TapMode (Answer_v2 c) \<noteq> None then ''tap''
              else if v2_HaMode (Answer_v2 c) \<noteq> None then ''ha''
              else if v2_DecryptMirrorMode (Answer_v2 c) \<noteq> None then ''decrypt-mirror''
              else if v2_AggregateGroupMode (Answer_v2 c) \<noteq> None then ''aggregate-group''
              else []),
     LinkSpeed := v2_LinkSpeed (Answer_v2 c), LinkDuplex := v2_LinkDuplex (Answer_v2 c),
     LinkState := v2_LinkState (Answer_v2 c), 
     Comment := v2_Comment (Answer_v2 c)\<rparr>"
  using assms
  by (simp add: Normalize_v2_def Let_def Entry_zero_def raw_store_def raw_len_is_0_def
      split: option.splits)

lemma l3_map_nonempty:
  assumes "\<not> (a = None \<and> s = None \<and> i = None)"
  shows "(\<lambda>k. if k = ''ipv6'' then map_option f i
              else if k = ''l3subinterface'' then map_option f s
              else if k = ''arp'' then map_option f a
              else None) \<noteq> Map.empty"
proof
  assume eq: "(\<lambda>k. if k = ''ipv6'' then map_option f i
              else if k = ''l3subinterface'' then map_option f s
              else if k = ''arp'' then map_option f a
              else None) = Map.empty"
  from fun_cong [OF eq, of "''ipv6''"] have "i = None" by simp
  moreover from fun_cong [OF eq, of "''l3subinterface''"] have "s = None" by simp
  moreover from fun_cong [OF eq, of "''arp''"] have "a = None" by simp
  ultimately show False using assms by simp
qed

lemma l3_map_dom:
  "dom (\<lambda>k. if k = ''ipv6'' then map_option f i
              else if k = ''l3subinterface'' then map_option f s
              else if k = ''arp'' then map_option f a
              else None) \<subseteq> {''arp'', ''l3subinterface'', ''ipv6''}"
  by (auto simp add: dom_def split: if_splits)

lemma Normalize_v1_layer3_props:
  assumes "v1_ModeL3 (Answer_v1 c) = Some l3"
  shows "Mode (Normalize_v1 u c) = ''layer3''"
    and "other_modes_zero (Normalize_v1 u c)"
    and "fragments_per_mode (Normalize_v1 u c)"
proof -
  show "Mode (Normalize_v1 u c) = ''layer3''"
    by (simp add: Normalize_v1_layer3 [OF assms])
  show "other_modes_zero (Normalize_v1 u c)"
    by (simp add: Normalize_v1_layer3 [OF assms] other_modes_zero_def)
  show "fragments_per_mode (Normalize_v1 u c)"
    using l3_map_nonempty [of "l3v1_Arp l3" "l3v1_Subinterface l3" "Address (l3v1_Ipv6 l3)" "CleanRawXml u"]
      l3_map_dom [of "CleanRawXml u" "Address (l3v1_Ipv6 l3)" "l3v1_Subinterface l3" "l3v1_Arp l3"]
    by (simp add: Normalize_v1_layer3 [OF assms] fragments_per_mode_def mode_fragments_def)
qed

lemma Normalize_v1_layer2_props:
  assumes "v1_ModeL3 (Answer_v1 c) = None" and "v1_ModeL2 (Answer_v1 c) = Some l2"
  shows "Mode (Normalize_v1 u c) = ''layer2''"
    and "other_modes_zero (Normalize_v1 u c)"
    and "fragments_per_mode (Normalize_v1 u c)"
proof -
  show "Mode (Normalize_v1 u c) = ''layer2''"
    by (simp add: Normalize_v1_layer2 [OF assms])
  show "other_modes_zero (Normalize_v1 u c)"
    by (simp add: Normalize_v1_layer2 [OF assms] other_modes_zero_def Entry_zero_def)
  show "fragments_per_mode (Normalize_v1 u c)"
    by (cases "om_Subinterface l2")
       (simp_all add: Normalize_v1_layer2 [OF assms] fragments_per_mode_def mode_fragments_def)
qed

lemma Normalize_v1_vwire_props:
  assumes "v1_ModeL3 (Answer_v1 c) = None" and "v1_ModeL2 (Answer_v1 c) = None"
    and "v1_ModeVwire (Answer_v1 c) = Some vw"
  shows "Mode (Normalize_v1 u c) = ''virtual-wire''"
    and "other_modes_zero (Normalize_v1 u c)"
    and "fragments_per_mode (Normalize_v1 u c)"
  by (simp_all add: Normalize_v1_vwire [OF assms] other_modes_zero_def fragments_per_mode_def
      Entry_zero_def)

lemma Normalize_v1_empty_modes_props:
  assumes "v1_ModeL3 (Answer_v1 c) = None" and "v1_ModeL2 (Answer_v1 c) = None"
    and "v1_ModeVwire (Answer_v1 c) = None"
  shows "Mode (Normalize_v1 u c) =
           first_mode False False False (v1_TapMode (Answer_v1 c) \<noteq> None)
             (v1_HaMode (Answer_v1 c) \<noteq> None) (v1_DecryptMirrorMode (Answer_v1 c) \<noteq> None)
             (v1_AggregateGroupMode (Answer_v1 c) \<noteq> None)"
    and "other_modes_zero (Normalize_v1 u c)"
    and "fragments_per_mode (Normalize_v1 u c)"
  by (simp_all add: Normalize_v1_empty_modes [OF assms] other_modes_zero_def
      fragments_per_mode_def Entry_zero_def first_mode_def)

lemma Normalize_v1_modes:
  "Mode (Normalize_v1 u c) =
     first_mode (v1_ModeL3 (Answer_v1 c) \<noteq> None) (v1_ModeL2 (Answer_v1 c) \<noteq> None)
       (v1_ModeVwire (Answer_v1 c) \<noteq> None) (v1_TapMode (Answer_v1 c) \<noteq> None)
       (v1_HaMode (Answer_v1 c) \<noteq> None) (v1_DecryptMirrorMode (Answer_v1 c) \<noteq> None)
       (v1_AggregateGroupMode (Answer_v1 c) \<noteq> None) \<and>
   other_modes_zero (Normalize_v1 u c) \<and> fragments_per_mode (Normalize_v1 u c)"
proof (cases "v1_ModeL3 (Answer_v1 c)")
  case (Some l3)
  from Normalize_v1_layer3_props [OF Some, of u] Some show ?thesis
    by (simp add: first_mode_def)
next
  case l3: None
  show ?thesis
  proof (cases "v1_ModeL2 (Answer_v1 c)")
    case (Some l2)
    from Normalize_v1_layer2_props [OF l3 Some, of u] l3 Some show ?thesis
      by (simp add: first_mode_def)
  next
    case l2: None
    show ?thesis
    proof (cases "v1_ModeVwire (Answer_v1 c)")
      case (Some vw)
      from Normalize_v1_vwire_props [OF l3 l2 Some, of u] l3 l2 Some show ?thesis
        by (simp add: first_mode_def)
    next
      case None
      from Normalize_v1_empty_modes_props [OF l3 l2 None, of u] l3 l2 None show ?thesis
        by (simp add: first_mode_def)
    qed
  qed
qed
lemma Normalize_v2_layer3_props:
  assumes "v2_ModeL3 (Answer_v2 c) = Some l3"
  shows "Mode (Normalize_v2 u c) = ''layer3''"
    and "other_modes_zero (Normalize_v2 u c)"
    and "fragments_per_mode (Normalize_v2 u c)"
proof -
  show "Mode (Normalize_v2 u c) = ''layer3''"
    by (simp add: Normalize_v2_layer3 [OF assms])
  show "other_modes_zero (Normalize_v2 u c)"
    by (simp add: Normalize_v2_layer3 [OF assms] other_modes_zero_def)
  show "fragments_per_mode (Normalize_v2 u c)"
    using l3_map_nonempty [of "l3v2_Arp l3" "l3v2_Subinterface l3" "Address (l3v2_Ipv6 l3)" "CleanRawXml u"]
      l3_map_dom [of "CleanRawXml u" "Address (l3v2_Ipv6 l3)" "l3v2_Subinterface l3" "l3v2_Arp l3"]
    by (simp add: Normalize_v2_layer3 [OF assms] fragments_per_mode_def mode_fragments_def)
qed

lemma Normalize_v2_layer2_props:
  assumes "v2_ModeL3 (Answer_v2 c) = None" and "v2_ModeL2 (Answer_v2 c) = Some l2"
  shows "Mode (Normalize_v2 u c) = ''layer2''"
    and "other_modes_zero (Normalize_v2 u c)"
    and "fragments_per_mode (Normalize_v2 u c)"
proof -
  show "Mode (Normalize_v2 u c) = ''layer2''"
    by (simp add: Normalize_v2_layer2 [OF assms])
  show "other_modes_zero (Normalize_v2 u c)"
    by (simp add: Normalize_v2_layer2 [OF assms] other_modes_zero_def Entry_zero_def)
  show "fragments_per_mode (Normalize_v2 u c)"
    by (cases "om_Subinterface l2")
       (simp_all add: Normalize_v2_layer2 [OF assms] fragments_per_mode_def mode_fragments_def)
qed

lemma Normalize_v2_vwire_props:
  assumes "v2_ModeL3 (Answer_v2 c) = None" and "v2_ModeL2 (Answer_v2 c) = None"
    and "v2_ModeVwire (Answer_v2 c) = Some vw"
  shows "Mode (Normalize_v2 u c) = ''virtual-wire''"
    and "other_modes_zero (Normalize_v2 u c)"
    and "fragments_per_mode (Normalize_v2 u c)"
  by (simp_all add: Normalize_v2_vwire [OF assms] other_modes_zero_def fragments_per_mode_def
      Entry_zero_def)

lemma Normalize_v2_empty_modes_props:
  assumes "v2_ModeL3 (Answer_v2 c) = None" and "v2_ModeL2 (Answer_v2 c) = None"
    and "v2_ModeVwire (Answer_v2 c) = None"
  shows "Mode (Normalize_v2 u c) =
           first_mode False False False (v2_TapMode (Answer_v2 c) \<noteq> None)
             (v2_HaMode (Answer_v2 c) \<noteq> None) (v2_DecryptMirrorMode (Answer_v2 c) \<noteq> None)
             (v2_AggregateGroupMode (Answer_v2 c) \<noteq> None)"
    and "other_modes_zero (Normalize_v2 u c)"
    and "fragments_per_mode (Normalize_v2 u c)"
  by (simp_all add: Normalize_v2_empty_modes [OF assms] other_modes_zero_def
      fragments_per_mode_def Entry_zero_def first_mode_def)

lemma Normalize_v2_modes:
  "Mode (Normalize_v2 u c) =
     first_mode (v2_ModeL3 (Answer_v2 c) \<noteq> None) (v2_ModeL2 (Answer_v2 c) \<noteq> None)
       (v2_ModeVwire (Answer_v2 c) \<noteq> None) (v2_TapMode (Answer_v2 c) \<noteq> None)
       (v2_HaMode (Answer_v2 c) \<noteq> None) (v2_DecryptMirrorMode (Answer_v2 c) \<noteq> None)
       (v2_AggregateGroupMode (Answer_v2 c) \<noteq> None) \<and>
   other_modes_zero (Normalize_v2 u c) \<and> fragments_per_mode (Normalize_v2 u c)"
proof (cases "v2_ModeL3 (Answer_v2 c)")
  case (Some l3)
  from Normalize_v2_layer3_props [OF Some, of u] Some show ?thesis
    by (simp add: first_mode_def)
next
  case l3: None
  show ?thesis
  proof (cases "v2_ModeL2 (Answer_v2 c)")
    case (Some l2)
    from Normalize_v2_layer2_props [OF l3 Some, of u] l3 Some show ?thesis
      by (simp add: first_mode_def)
  next
    case l2: None
    show ?thesis
    proof (cases "v2_ModeVwire (Answer_v2 c)")
      case (Some vw)
      from Normalize_v2_vwire_props [OF l3 l2 Some, of u] l3 l2 Some show ?thesis
        by (simp add: first_mode_def)
    next
      case None
      from Normalize_v2_empty_modes_props [OF l3 l2 None, of u] l3 l2 None show ?thesis
        by (simp add: first_mode_def)
    qed
  qed
qed

text \<open>
  C10: for an answer of version 1 and for one of version 2, the mode that \<^verbatim>\<open>Normalize\<close>
  returns is the first of layer3, layer2, virtual-wire, tap, ha, decrypt-mirror,
  aggregate-group whose sub-structure is not nil, whatever others are not nil too, and the
  empty string when all seven are nil (\<^verbatim>\<open>Normalize\<close> has no error result).  In the entry
  returned, the fields that belong to other modes than the one returned are zero, and the
  map of fragments is nil or holds fragments of that mode only.
\<close>

theorem Normalize_mode_resolution:
  "(Mode (Normalize_v1 u c1) =
      first_mode (v1_ModeL3 (Answer_v1 c1) \<noteq> None) (v1_ModeL2 (Answer_v1 c1) \<noteq> None)
        (v1_ModeVwire (Answer_v1 c1) \<noteq> None) (v1_TapMode (Answer_v1 c1) \<noteq> None)
        (v1_HaMode (Answer_v1 c1) \<noteq> None) (v1_DecryptMirrorMode (Answer_v1 c1) \<noteq> None)
        (v1_AggregateGroupMode (Answer_v1 c1) \<noteq> None) \<and>
    other_modes_zero (Normalize_v1 u c1) \<and> fragments_per_mode (Normalize_v1 u c1)) \<and>
   (Mode (Normalize_v2 u c2) =
      first_mode (v2_ModeL3 (Answer_v2 c2) \<noteq> None) (v2_ModeL2 (Answer_v2 c2) \<noteq> None)
        (v2_ModeVwire (Answer_v2 c2) \<noteq> None) (v2_TapMode (Answer_v2 c2) \<noteq> None)
        (v2_HaMode (Answer_v2 c2) \<noteq> None) (v2_DecryptMirrorMode (Answer_v2 c2) \<noteq> None)
        (v2_AggregateGroupMode (Answer_v2 c2) \<noteq> None) \<and>
    other_modes_zero (Normalize_v2 u c2) \<and> fragments_per_mode (Normalize_v2 u c2))"
proof (rule conjI)
  show "Mode (Normalize_v1 u c1) =
      first_mode (v1_ModeL3 (Answer_v1 c1) \<noteq> None) (v1_ModeL2 (Answer_v1 c1) \<noteq> None)
        (v1_ModeVwire (Answer_v1 c1) \<noteq> None) (v1_TapMode (Answer_v1 c1) \<noteq> None)
        (v1_HaMode (Answer_v1 c1) \<noteq> None) (v1_DecryptMirrorMode (Answer_v1 c1) \<noteq> None)
        (v1_AggregateGroupMode (Answer_v1 c1) \<noteq> None) \<and>
    other_modes_zero (Normalize_v1 u c1) \<and> fragments_per_mode (Normalize_v1 u c1)"
    by (rule Normalize_v1_modes)
  show "Mode (Normalize_v2 u c2) =
      first_mode (v2_ModeL3 (Answer_v2 c2) \<noteq> None) (v2_ModeL2 (Answer_v2 c2) \<noteq> None)
        (v2_ModeVwire (Answer_v2 c2) \<noteq> None) (v2_TapMode (Answer_v2 c2) \<noteq> None)
        (v2_HaMode (Answer_v2 c2) \<noteq> None) (v2_DecryptMirrorMode (Answer_v2 c2) \<noteq> None)
        (v2_AggregateGroupMode (Answer_v2 c2) \<noteq> None) \<and>
    other_modes_zero (Normalize_v2 u c2) \<and> fragments_per_mode (Normalize_v2 u c2)"
    by (rule Normalize_v2_modes)
qed

theorem Normalize_mode_resolution_witness:
  "Mode (Normalize_v1 sample_util two_modes_v1) = ''layer2'' \<and>
   Mode (Normalize_v1 sample_util two_modes_v1) \<noteq> ''layer3'' \<and>
   StaticIps (Normalize_v1 sample_util two_modes_v1) = [] \<and>
   Mtu (Normalize_v1 sample_util two_modes_v1) = 0 \<and>
   \<not> Ipv6Enabled (Normalize_v1 sample_util two_modes_v1) \<and>
   AggregateGroup (Normalize_v1 sample_util two_modes_v1) = [] \<and>
   Mode (Normalize_v2 sample_util no_mode_v2) = [] \<and>
   NetflowProfile (Normalize_v2 sample_util no_mode_v2) = [] \<and>
   \<not> LldpEnabled (Normalize_v2 sample_util no_mode_v2)"
  using Normalize_mode_resolution [of sample_util two_modes_v1 no_mode_v2]
  by (simp add: other_modes_zero_def first_mode_def two_modes_v1_def no_mode_v2_def
      entry_v1_zero_def entry_v2_zero_def)

subsection \<open>Specify followed by Normalize\<close>

text \<open>
  What \<^verbatim>\<open>Normalize\<close> rebuilds from the fragments that \<^verbatim>\<open>specify\<close> wrote is the map it
  started from, when the map is nil or is not empty, has keys of the mode only, and holds
  texts that \<^verbatim>\<open>util.CleanRawXml\<close> leaves as they are.
\<close>

lemma raw_layer3_roundtrip:
  assumes frag: "case r of None \<Rightarrow> True
                 | Some m \<Rightarrow> m \<noteq> Map.empty \<and> dom m \<subseteq> {''arp'', ''l3subinterface'', ''ipv6''}"
    and clean: "\<forall>k t. raw_lookup r k = Some t \<longrightarrow> f t = t"
  shows "(if raw_lookup r ''arp'' = None \<and> raw_lookup r ''l3subinterface'' = None \<and>
             raw_lookup r ''ipv6'' = None
          then None
          else Some (\<lambda>k. if k = ''ipv6'' then map_option f (raw_lookup r ''ipv6'')
                 else if k = ''l3subinterface'' then map_option f (raw_lookup r ''l3subinterface'')
                 else if k = ''arp'' then map_option f (raw_lookup r ''arp'')
                 else None)) = r"
proof (cases r)
  case None
  then show ?thesis by (simp add: raw_lookup_def)
next
  case (Some m)
  with frag have ne: "m \<noteq> Map.empty"
    and dm: "dom m \<subseteq> {''arp'', ''l3subinterface'', ''ipv6''}" by simp_all
  from clean Some have fixed: "\<And>k t. m k = Some t \<Longrightarrow> f t = t"
    by (simp add: raw_lookup_def)
  have keep: "\<And>k. map_option f (m k) = m k"
  proof -
    fix k show "map_option f (m k) = m k" by (cases "m k") (simp_all add: fixed)
  qed
  have other: "\<And>k. k \<noteq> ''ipv6'' \<Longrightarrow> k \<noteq> ''l3subinterface'' \<Longrightarrow> k \<noteq> ''arp'' \<Longrightarrow> m k = None"
    using dm by (auto simp add: dom_def)
  have present: "\<not> (m ''arp'' = None \<and> m ''l3subinterface'' = None \<and> m ''ipv6'' = None)"
  proof
    assume a: "m ''arp'' = None \<and> m ''l3subinterface'' = None \<and> m ''ipv6'' = None"
    have "\<And>k. m k = None"
    proof -
      fix k show "m k = None"
        using a other [of k] by (cases "k = ''ipv6''"; cases "k = ''l3subinterface''"; cases "k = ''arp''") simp_all
    qed
    then have "m = Map.empty" by (simp add: fun_eq_iff)
    with ne show False by simp
  qed
  have "(\<lambda>k. if k = ''ipv6'' then map_option f (m ''ipv6'')
                 else if k = ''l3subinterface'' then map_option f (m ''l3subinterface'')
                 else if k = ''arp'' then map_option f (m ''arp'')
                 else None) = m"
  proof
    fix k
    show "(if k = ''ipv6'' then map_option f (m ''ipv6'')
                 else if k = ''l3subinterface'' then map_option f (m ''l3subinterface'')
                 else if k = ''arp'' then map_option f (m ''arp'')
                 else None) = m k"
      using other [of k] by (simp add: keep)
  qed
  then have eq: "Some (\<lambda>k. if k = ''ipv6'' then map_option f (m ''ipv6'')
                 else if k = ''l3subinterface'' then map_option f (m ''l3subinterface'')
                 else if k = ''arp'' then map_option f (m ''arp'')
                 else None) = r"
    using Some by simp
  have lookup: "\<And>k. raw_lookup r k = m k" using Some by (simp add: raw_lookup_def)
  show ?thesis unfolding lookup using present eq by presburger
qed

lemma raw_layer2_roundtrip:
  assumes frag: "case r of None \<Rightarrow> True
                 | Some m \<Rightarrow> m \<noteq> Map.empty \<and> dom m \<subseteq> {''l2subinterface''}"
    and clean: "\<forall>k t. raw_lookup r k = Some t \<longrightarrow> f t = t"
  shows "(case raw_lookup r ''l2subinterface'' of None \<Rightarrow> None
          | Some text \<Rightarrow> Some [''l2subinterface'' \<mapsto> f text]) = r"
proof (cases r)
  case None
  then show ?thesis by (simp add: raw_lookup_def)
next
  case (Some m)
  with frag have ne: "m \<noteq> Map.empty" and dm: "dom m \<subseteq> {''l2subinterface''}" by simp_all
  have other: "\<And>k. k \<noteq> ''l2subinterface'' \<Longrightarrow> m k = None"
    using dm by (auto simp add: dom_def)
  obtain t where t: "m ''l2subinterface'' = Some t"
  proof (cases "m ''l2subinterface''")
    case None
    then have "\<And>k. m k = None" using other by metis
    then have "m = Map.empty" by (simp add: fun_eq_iff)
    with ne show ?thesis by simp
  next
    case (Some t)
    then show ?thesis by (rule that)
  qed
  with clean Some have ft: "f t = t" by (simp add: raw_lookup_def)
  have "[''l2subinterface'' \<mapsto> t] = m"
  proof
    fix k show "[''l2subinterface'' \<mapsto> t] k = m k" using t other [of k] by simp
  qed
  with t ft Some show ?thesis by (simp add: raw_lookup_def)
qed

lemma raw_none_roundtrip:
  assumes "case r of None \<Rightarrow> True | Some m \<Rightarrow> m \<noteq> Map.empty \<and> dom m \<subseteq> {}"
  shows "r = None"
proof (cases r)
  case None
  then show ?thesis .
next
  case (Some m)
  with assms have "m \<noteq> Map.empty" and "dom m = {}" by simp_all
  then show ?thesis by simp
qed

lemma specify_v1_layer3:
  assumes "Mode e = ''layer3''"
  shows "specify_v1 u e =
    entry_v1_zero\<lparr>v1_Name := Name e, v1_LinkSpeed := LinkSpeed e,
      v1_LinkDuplex := LinkDuplex e, v1_LinkState := LinkState e, v1_Comment := Comment e,
      v1_ModeL3 := Some
        \<lparr>l3v1_Ipv6 = \<lparr>Enabled = YesNo u (Ipv6Enabled e), Address = raw_lookup (raw e) ''ipv6''\<rparr>,
         l3v1_ManagementProfile = ManagementProfile e,
         l3v1_Mtu = Mtu e,
         l3v1_NetflowProfile = NetflowProfile e,
         l3v1_AdjustTcpMss = YesNo u (AdjustTcpMss e),
         l3v1_StaticIps = StrToEnt u (StaticIps e),
         l3v1_Dhcp =
           (if EnableDhcp e \<or> CreateDhcpDefaultRoute e \<or> DhcpDefaultRouteMetric e \<noteq> 0
            then Some \<lparr>Enable = YesNo u (EnableDhcp e),
                       CreateDefaultRoute = YesNo u (CreateDhcpDefaultRoute e),
                       Metric = DhcpDefaultRouteMetric e\<rparr>
            else None),
         l3v1_Arp = raw_lookup (raw e) ''arp'',
         l3v1_Subinterface = raw_lookup (raw e) ''l3subinterface''\<rparr>\<rparr>"
  unfolding specify_v1_def Let_def
  by (cases "raw_lookup (raw e) ''arp''"; cases "raw_lookup (raw e) ''l3subinterface''";
      cases "raw_lookup (raw e) ''ipv6''")
     (simp_all add: assms ipv6_zero_def)

lemma roundtrip_v1_layer3:
  assumes bool: "\<forall>b. AsBool u (YesNo u b) = b"
    and ips: "EntToStr u (StrToEnt u (StaticIps e)) = StaticIps e"
    and clean: "\<forall>k t. raw_lookup (raw e) k = Some t \<longrightarrow> CleanRawXml u t = t"
    and mode: "Mode e = ''layer3''"
    and zero: "other_modes_zero e"
    and frag: "fragments_per_mode e"
    and agg: "AggregateGroup e = []"
    and mss: "Ipv4MssAdjust e = 0 \<and> Ipv6MssAdjust e = 0"
  shows "Normalize_v1 u \<lparr>Answer_v1 = specify_v1 u e\<rparr> = e"
proof -
  from frag mode have
    "case raw e of None \<Rightarrow> True
     | Some m \<Rightarrow> m \<noteq> Map.empty \<and> dom m \<subseteq> {''arp'', ''l3subinterface'', ''ipv6''}"
    by (simp add: fragments_per_mode_def mode_fragments_def split: option.splits)
  from raw_layer3_roundtrip [OF this clean]
  have r: "(if raw_lookup (raw e) ''arp'' = None \<and> raw_lookup (raw e) ''l3subinterface'' = None \<and>
             raw_lookup (raw e) ''ipv6'' = None
          then None
          else Some (\<lambda>k. if k = ''ipv6'' then map_option (CleanRawXml u) (raw_lookup (raw e) ''ipv6'')
                 else if k = ''l3subinterface''
                   then map_option (CleanRawXml u) (raw_lookup (raw e) ''l3subinterface'')
                 else if k = ''arp'' then map_option (CleanRawXml u) (raw_lookup (raw e) ''arp'')
                 else None)) = raw e" .
  from zero mode have z: "\<not> LldpEnabled e" "LldpProfile e = []"
    by (simp_all add: other_modes_zero_def)
  define l3 where "l3 =
        \<lparr>l3v1_Ipv6 = \<lparr>Enabled = YesNo u (Ipv6Enabled e), Address = raw_lookup (raw e) ''ipv6''\<rparr>,
         l3v1_ManagementProfile = ManagementProfile e,
         l3v1_Mtu = Mtu e,
         l3v1_NetflowProfile = NetflowProfile e,
         l3v1_AdjustTcpMss = YesNo u (AdjustTcpMss e),
         l3v1_StaticIps = StrToEnt u (StaticIps e),
         l3v1_Dhcp =
           (if EnableDhcp e \<or> CreateDhcpDefaultRoute e \<or> DhcpDefaultRouteMetric e \<noteq> 0
            then Some \<lparr>Enable = YesNo u (EnableDhcp e),
                       CreateDefaultRoute = YesNo u (CreateDhcpDefaultRoute e),
                       Metric = DhcpDefaultRouteMetric e\<rparr>
            else None),
         l3v1_Arp = raw_lookup (raw e) ''arp'',
         l3v1_Subinterface = raw_lookup (raw e) ''l3subinterface''\<rparr>"
  have sel: "Enabled (l3v1_Ipv6 l3) = YesNo u (Ipv6Enabled e)"
    "Address (l3v1_Ipv6 l3) = raw_lookup (raw e) ''ipv6''"
    "l3v1_ManagementProfile l3 = ManagementProfile e"
    "l3v1_Mtu l3 = Mtu e"
    "l3v1_NetflowProfile l3 = NetflowProfile e"
    "l3v1_AdjustTcpMss l3 = YesNo u (AdjustTcpMss e)"
    "l3v1_StaticIps l3 = StrToEnt u (StaticIps e)"
    "l3v1_Arp l3 = raw_lookup (raw e) ''arp''"
    "l3v1_Subinterface l3 = raw_lookup (raw e) ''l3subinterface''"
    by (simp_all add: l3_def)
  have dhcp: "(case l3v1_Dhcp l3 of None \<Rightarrow> False | Some d \<Rightarrow> AsBool u (Enable d)) = EnableDhcp e"
    "(case l3v1_Dhcp l3 of None \<Rightarrow> False | Some d \<Rightarrow> AsBool u (CreateDefaultRoute d))
       = CreateDhcpDefaultRoute e"
    "(case l3v1_Dhcp l3 of None \<Rightarrow> 0 | Some d \<Rightarrow> Metric d) = DhcpDefaultRouteMetric e"
    by (simp_all add: l3_def bool)
  have ans: "v1_ModeL3 (Answer_v1 \<lparr>Answer_v1 = specify_v1 u e\<rparr>) = Some l3"
    "v1_Name (Answer_v1 \<lparr>Answer_v1 = specify_v1 u e\<rparr>) = Name e"
    "v1_LinkSpeed (Answer_v1 \<lparr>Answer_v1 = specify_v1 u e\<rparr>) = LinkSpeed e"
    "v1_LinkDuplex (Answer_v1 \<lparr>Answer_v1 = specify_v1 u e\<rparr>) = LinkDuplex e"
    "v1_LinkState (Answer_v1 \<lparr>Answer_v1 = specify_v1 u e\<rparr>) = LinkState e"
    "v1_Comment (Answer_v1 \<lparr>Answer_v1 = specify_v1 u e\<rparr>) = Comment e"
    by (simp_all add: specify_v1_layer3 [OF mode] l3_def)
  show ?thesis
    unfolding Normalize_v1_layer3 [OF ans(1)] ans sel dhcp r
    by (rule Entry.equality) (simp_all add: mode bool ips z agg mss)
qed

lemma roundtrip_v1_layer2:
  assumes bool: "\<forall>b. AsBool u (YesNo u b) = b"
    and clean: "\<forall>k t. raw_lookup (raw e) k = Some t \<longrightarrow> CleanRawXml u t = t"
    and mode: "Mode e = ''layer2''"
    and zero: "other_modes_zero e"
    and frag: "fragments_per_mode e"
  shows "Normalize_v1 u \<lparr>Answer_v1 = specify_v1 u e\<rparr> = e"
proof -
  from frag mode have
    "case raw e of None \<Rightarrow> True | Some m \<Rightarrow> m \<noteq> Map.empty \<and> dom m \<subseteq> {''l2subinterface''}"
    by (simp add: fragments_per_mode_def mode_fragments_def split: option.splits)
  from raw_layer2_roundtrip [OF this clean]
  have r: "(case raw_lookup (raw e) ''l2subinterface'' of None \<Rightarrow> None
            | Some text \<Rightarrow> Some [''l2subinterface'' \<mapsto> CleanRawXml u text]) = raw e" .
  from zero mode have z: "StaticIps e = []" "\<not> EnableDhcp e" "\<not> CreateDhcpDefaultRoute e"
    "DhcpDefaultRouteMetric e = 0" "\<not> Ipv6Enabled e" "ManagementProfile e = []" "Mtu e = 0"
    "\<not> AdjustTcpMss e" "Ipv4MssAdjust e = 0" "Ipv6MssAdjust e = 0" "AggregateGroup e = []"
    by (simp_all add: other_modes_zero_def)
  define l2 where "l2 =
    \<lparr>om_LldpEnabled = YesNo u (LldpEnabled e), om_LldpProfile = LldpProfile e,
     om_NetflowProfile = NetflowProfile e,
     om_Subinterface = raw_lookup (raw e) ''l2subinterface''\<rparr>"
  have sel: "om_LldpEnabled l2 = YesNo u (LldpEnabled e)" "om_LldpProfile l2 = LldpProfile e"
    "om_NetflowProfile l2 = NetflowProfile e"
    "om_Subinterface l2 = raw_lookup (raw e) ''l2subinterface''"
    by (simp_all add: l2_def)
  have ans: "v1_ModeL3 (Answer_v1 \<lparr>Answer_v1 = specify_v1 u e\<rparr>) = None"
    "v1_ModeL2 (Answer_v1 \<lparr>Answer_v1 = specify_v1 u e\<rparr>) = Some l2"
    "v1_Name (Answer_v1 \<lparr>Answer_v1 = specify_v1 u e\<rparr>) = Name e"
    "v1_LinkSpeed (Answer_v1 \<lparr>Answer_v1 = specify_v1 u e\<rparr>) = LinkSpeed e"
    "v1_LinkDuplex (Answer_v1 \<lparr>Answer_v1 = specify_v1 u e\<rparr>) = LinkDuplex e"
    "v1_LinkState (Answer_v1 \<lparr>Answer_v1 = specify_v1 u e\<rparr>) = LinkState e"
    "v1_Comment (Answer_v1 \<lparr>Answer_v1 = specify_v1 u e\<rparr>) = Comment e"
    by (cases "raw_lookup (raw e) ''l2subinterface''";
        simp add: specify_v1_def Let_def mode l2_def entry_v1_zero_def)+
  show ?thesis
    unfolding Normalize_v1_layer2 [OF ans(1) ans(2)] ans sel r
    by (rule Entry.equality) (simp_all add: Entry_zero_def mode bool z)
qed

lemma roundtrip_v1_vwire:
  assumes bool: "\<forall>b. AsBool u (YesNo u b) = b"
    and mode: "Mode e = ''virtual-wire''"
    and zero: "other_modes_zero e"
    and frag: "fragments_per_mode e"
  shows "Normalize_v1 u \<lparr>Answer_v1 = specify_v1 u e\<rparr> = e"
proof -
  from frag mode have
    "case raw e of None \<Rightarrow> True | Some m \<Rightarrow> m \<noteq> Map.empty \<and> dom m \<subseteq> {}"
    by (simp add: fragments_per_mode_def mode_fragments_def split: option.splits)
  then have r: "raw e = None" by (rule raw_none_roundtrip)
  from zero mode have z: "StaticIps e = []" "\<not> EnableDhcp e" "\<not> CreateDhcpDefaultRoute e"
    "DhcpDefaultRouteMetric e = 0" "\<not> Ipv6Enabled e" "ManagementProfile e = []" "Mtu e = 0"
    "\<not> AdjustTcpMss e" "Ipv4MssAdjust e = 0" "Ipv6MssAdjust e = 0" "AggregateGroup e = []"
    by (simp_all add: other_modes_zero_def)
  define vw where "vw =
    \<lparr>om_LldpEnabled = YesNo u (LldpEnabled e), om_LldpProfile = LldpProfile e,
     om_NetflowProfile = NetflowProfile e, om_Subinterface = None\<rparr>"
  have sel: "om_LldpEnabled vw = YesNo u (LldpEnabled e)" "om_LldpProfile vw = LldpProfile e"
    "om_NetflowProfile vw = NetflowProfile e"
    by (simp_all add: vw_def)
  have ans: "v1_ModeL3 (Answer_v1 \<lparr>Answer_v1 = specify_v1 u e\<rparr>) = None"
    "v1_ModeL2 (Answer_v1 \<lparr>Answer_v1 = specify_v1 u e\<rparr>) = None"
    "v1_ModeVwire (Answer_v1 \<lparr>Answer_v1 = specify_v1 u e\<rparr>) = Some vw"
    "v1_Name (Answer_v1 \<lparr>Answer_v1 = specify_v1 u e\<rparr>) = Name e"
    "v1_LinkSpeed (Answer_v1 \<lparr>Answer_v1 = specify_v1 u e\<rparr>) = LinkSpeed e"
    "v1_LinkDuplex (Answer_v1 \<lparr>Answer_v1 = specify_v1 u e\<rparr>) = LinkDuplex e"
    "v1_LinkState (Answer_v1 \<lparr>Answer_v1 = specify_v1 u e\<rparr>) = LinkState e"
    "v1_Comment (Answer_v1 \<lparr>Answer_v1 = specify_v1 u e\<rparr>) = Comment e"
    by (simp_all add: specify_v1_def Let_def mode vw_def entry_v1_zero_def)
  show ?thesis
    unfolding Normalize_v1_vwire [OF ans(1) ans(2) ans(3)] ans sel
    by (rule Entry.equality) (simp_all add: Entry_zero_def mode bool z r)
qed

lemma roundtrip_v1_empty_modes:
  assumes mode: "Mode e = ''tap'' \<or> Mode e = ''ha'' \<or> Mode e = ''decrypt-mirror'' \<or>
                 Mode e = ''aggregate-group''"
    and zero: "other_modes_zero e"
    and frag: "fragments_per_mode e"
    and agg: "AggregateGroup e = []"
  shows "Normalize_v1 u \<lparr>Answer_v1 = specify_v1 u e\<rparr> = e"
proof -
  from frag mode have
    "case raw e of None \<Rightarrow> True | Some m \<Rightarrow> m \<noteq> Map.empty \<and> dom m \<subseteq> {}"
    by (auto simp add: fragments_per_mode_def mode_fragments_def split: option.splits)
  then have r: "raw e = None" by (rule raw_none_roundtrip)
  from mode have m3: "Mode e \<noteq> ''layer3''" "Mode e \<noteq> ''layer2''" "Mode e \<noteq> ''virtual-wire''"
    by auto
  with zero have z: "StaticIps e = []" "\<not> EnableDhcp e" "\<not> CreateDhcpDefaultRoute e"
    "DhcpDefaultRouteMetric e = 0" "\<not> Ipv6Enabled e" "ManagementProfile e = []" "Mtu e = 0"
    "\<not> AdjustTcpMss e" "Ipv4MssAdjust e = 0" "Ipv6MssAdjust e = 0"
    "\<not> LldpEnabled e" "LldpProfile e = []" "NetflowProfile e = []"
    by (simp_all add: other_modes_zero_def)
  have ans: "v1_ModeL3 (Answer_v1 \<lparr>Answer_v1 = specify_v1 u e\<rparr>) = None"
    "v1_ModeL2 (Answer_v1 \<lparr>Answer_v1 = specify_v1 u e\<rparr>) = None"
    "v1_ModeVwire (Answer_v1 \<lparr>Answer_v1 = specify_v1 u e\<rparr>) = None"
    "v1_Name (Answer_v1 \<lparr>Answer_v1 = specify_v1 u e\<rparr>) = Name e"
    "v1_LinkSpeed (Answer_v1 \<lparr>Answer_v1 = specify_v1 u e\<rparr>) = LinkSpeed e"
    "v1_LinkDuplex (Answer_v1 \<lparr>Answer_v1 = specify_v1 u e\<rparr>) = LinkDuplex e"
    "v1_LinkState (Answer_v1 \<lparr>Answer_v1 = specify_v1 u e\<rparr>) = LinkState e"
    "v1_Comment (Answer_v1 \<lparr>Answer_v1 = specify_v1 u e\<rparr>) = Comment e"
    using mode by (auto simp add: specify_v1_def Let_def entry_v1_zero_def)
  have md: "(if v1_TapMode (Answer_v1 \<lparr>Answer_v1 = specify_v1 u e\<rparr>) \<noteq> None then ''tap''
       else if v1_HaMode (Answer_v1 \<lparr>Answer_v1 = specify_v1 u e\<rparr>) \<noteq> None then ''ha''
       else if v1_DecryptMirrorMode (Answer_v1 \<lparr>Answer_v1 = specify_v1 u e\<rparr>) \<noteq> None
         then ''decrypt-mirror''
       else if v1_AggregateGroupMode (Answer_v1 \<lparr>Answer_v1 = specify_v1 u e\<rparr>) \<noteq> None
         then ''aggregate-group''
       else []) = Mode e"
    using mode by (auto simp add: specify_v1_def Let_def entry_v1_zero_def)
  show ?thesis
    unfolding Normalize_v1_empty_modes [OF ans(1) ans(2) ans(3)] md ans
    by (rule Entry.equality) (simp_all add: Entry_zero_def z r agg)
qed

lemma specify_v2_layer3:
  assumes "Mode e = ''layer3''"
  shows "specify_v2 u e =
    entry_v2_zero\<lparr>v2_Name := Name e, v2_LinkSpeed := LinkSpeed e,
      v2_LinkDuplex := LinkDuplex e, v2_LinkState := LinkState e, v2_Comment := Comment e,
      v2_ModeL3 := Some
        \<lparr>l3v2_Ipv6 = \<lparr>Enabled = YesNo u (Ipv6Enabled e), Address = raw_lookup (raw e) ''ipv6''\<rparr>,
         l3v2_ManagementProfile = ManagementProfile e,
         l3v2_Mtu = Mtu e,
         l3v2_NetflowProfile = NetflowProfile e,
         l3v2_AdjustTcpMss = YesNo u (AdjustTcpMss e),
         l3v2_Ipv4MssAdjust = Ipv4MssAdjust e,
         l3v2_Ipv6MssAdjust = Ipv6MssAdjust e,
         l3v2_StaticIps = StrToEnt u (StaticIps e),
         l3v2_Dhcp =
           (if EnableDhcp e \<or> CreateDhcpDefaultRoute e \<or> DhcpDefaultRouteMetric e \<noteq> 0
            then Some \<lparr>Enable = YesNo u (EnableDhcp e),
                       CreateDefaultRoute = YesNo u (CreateDhcpDefaultRoute e),
                       Metric = DhcpDefaultRouteMetric e\<rparr>
            else None),
         l3v2_Arp = raw_lookup (raw e) ''arp'',
         l3v2_Subinterface = raw_lookup (raw e) ''l3subinterface''\<rparr>\<rparr>"
  unfolding specify_v2_def Let_def
  by (cases "raw_lookup (raw e) ''arp''"; cases "raw_lookup (raw e) ''l3subinterface''";
      cases "raw_lookup (raw e) ''ipv6''")
     (simp_all add: assms ipv6_zero_def)

lemma roundtrip_v2_layer3:
  assumes bool: "\<forall>b. AsBool u (YesNo u b) = b"
    and ips: "EntToStr u (StrToEnt u (StaticIps e)) = StaticIps e"
    and clean: "\<forall>k t. raw_lookup (raw e) k = Some t \<longrightarrow> CleanRawXml u t = t"
    and mode: "Mode e = ''layer3''"
    and zero: "other_modes_zero e"
    and frag: "fragments_per_mode e"
    and agg: "AggregateGroup e = []"
  shows "Normalize_v2 u \<lparr>Answer_v2 = specify_v2 u e\<rparr> = e"
proof -
  from frag mode have
    "case raw e of None \<Rightarrow> True
     | Some m \<Rightarrow> m \<noteq> Map.empty \<and> dom m \<subseteq> {''arp'', ''l3subinterface'', ''ipv6''}"
    by (simp add: fragments_per_mode_def mode_fragments_def split: option.splits)
  from raw_layer3_roundtrip [OF this clean]
  have r: "(if raw_lookup (raw e) ''arp'' = None \<and> raw_lookup (raw e) ''l3subinterface'' = None \<and>
             raw_lookup (raw e) ''ipv6'' = None
          then None
          else Some (\<lambda>k. if k = ''ipv6'' then map_option (CleanRawXml u) (raw_lookup (raw e) ''ipv6'')
                 else if k = ''l3subinterface''
                   then map_option (CleanRawXml u) (raw_lookup (raw e) ''l3subinterface'')
                 else if k = ''arp'' then map_option (CleanRawXml u) (raw_lookup (raw e) ''arp'')
                 else None)) = raw e" .
  from zero mode have z: "\<not> LldpEnabled e" "LldpProfile e = []"
    by (simp_all add: other_modes_zero_def)
  define l3 where "l3 =
        \<lparr>l3v2_Ipv6 = \<lparr>Enabled = YesNo u (Ipv6Enabled e), Address = raw_lookup (raw e) ''ipv6''\<rparr>,
         l3v2_ManagementProfile = ManagementProfile e,
         l3v2_Mtu = Mtu e,
         l3v2_NetflowProfile = NetflowProfile e,
         l3v2_AdjustTcpMss = YesNo u (AdjustTcpMss e),
         l3v2_Ipv4MssAdjust = Ipv4MssAdjust e,
         l3v2_Ipv6MssAdjust = Ipv6MssAdjust e,
         l3v2_StaticIps = StrToEnt u (StaticIps e),
         l3v2_Dhcp =
           (if EnableDhcp e \<or> CreateDhcpDefaultRoute e \<or> DhcpDefaultRouteMetric e \<noteq> 0
            then Some \<lparr>Enable = YesNo u (EnableDhcp e),
                       CreateDefaultRoute = YesNo u (CreateDhcpDefaultRoute e),
                       Metric = DhcpDefaultRouteMetric e\<rparr>
            else None),
         l3v2_Arp = raw_lookup (raw e) ''arp'',
         l3v2_Subinterface = raw_lookup (raw e) ''l3subinterface''\<rparr>"
  have sel: "Enabled (l3v2_Ipv6 l3) = YesNo u (Ipv6Enabled e)"
    "Address (l3v2_Ipv6 l3) = raw_lookup (raw e) ''ipv6''"
    "l3v2_ManagementProfile l3 = ManagementProfile e"
    "l3v2_Mtu l3 = Mtu e"
    "l3v2_NetflowProfile l3 = NetflowProfile e"
    "l3v2_AdjustTcpMss l3 = YesNo u (AdjustTcpMss e)"
    "l3v2_Ipv4MssAdjust l3 = Ipv4MssAdjust e"
    "l3v2_Ipv6MssAdjust l3 = Ipv6MssAdjust e"
    "l3v2_StaticIps l3 = StrToEnt u (StaticIps e)"
    "l3v2_Arp l3 = raw_lookup (raw e) ''arp''"
    "l3v2_Subinterface l3 = raw_lookup (raw e) ''l3subinterface''"
    by (simp_all add: l3_def)
  have dhcp: "(case l3v2_Dhcp l3 of None \<Rightarrow> False | Some d \<Rightarrow> AsBool u (Enable d)) = EnableDhcp e"
    "(case l3v2_Dhcp l3 of None \<Rightarrow> False | Some d \<Rightarrow> AsBool u (CreateDefaultRoute d))
       = CreateDhcpDefaultRoute e"
    "(case l3v2_Dhcp l3 of None \<Rightarrow> 0 | Some d \<Rightarrow> Metric d) = DhcpDefaultRouteMetric e"
    by (simp_all add: l3_def bool)
  have ans: "v2_ModeL3 (Answer_v2 \<lparr>Answer_v2 = specify_v2 u e\<rparr>) = Some l3"
    "v2_Name (Answer_v2 \<lparr>Answer_v2 = specify_v2 u e\<rparr>) = Name e"
    "v2_LinkSpeed (Answer_v2 \<lparr>Answer_v2 = specify_v2 u e\<rparr>) = LinkSpeed e"
    "v2_LinkDuplex (Answer_v2 \<lparr>Answer_v2 = specify_v2 u e\<rparr>) = LinkDuplex e"
    "v2_LinkState (Answer_v2 \<lparr>Answer_v2 = specify_v2 u e\<rparr>) = LinkState e"
    "v2_Comment (Answer_v2 \<lparr>Answer_v2 = specify_v2 u e\<rparr>) = Comment e"
    by (simp_all add: specify_v2_layer3 [OF mode] l3_def)
  show ?thesis
    unfolding Normalize_v2_layer3 [OF ans(1)] ans sel dhcp r
    by (rule Entry.equality) (simp_all add: mode bool ips z agg)
qed

lemma roundtrip_v2_layer2:
  assumes bool: "\<forall>b. AsBool u (YesNo u b) = b"
    and clean: "\<forall>k t. raw_lookup (raw e) k = Some t \<longrightarrow> CleanRawXml u t = t"
    and mode: "Mode e = ''layer2''"
    and zero: "other_modes_zero e"
    and frag: "fragments_per_mode e"
  shows "Normalize_v2 u \<lparr>Answer_v2 = specify_v2 u e\<rparr> = e"
proof -
  from frag mode have
    "case raw e of None \<Rightarrow> True | Some m \<Rightarrow> m \<noteq> Map.empty \<and> dom m \<subseteq> {''l2subinterface''}"
    by (simp add: fragments_per_mode_def mode_fragments_def split: option.splits)
  from raw_layer2_roundtrip [OF this clean]
  have r: "(case raw_lookup (raw e) ''l2subinterface'' of None \<Rightarrow> None
            | Some text \<Rightarrow> Some [''l2subinterface'' \<mapsto> CleanRawXml u text]) = raw e" .
  from zero mode have z: "StaticIps e = []" "\<not> EnableDhcp e" "\<not> CreateDhcpDefaultRoute e"
    "DhcpDefaultRouteMetric e = 0" "\<not> Ipv6Enabled e" "ManagementProfile e = []" "Mtu e = 0"
    "\<not> AdjustTcpMss e" "Ipv4MssAdjust e = 0" "Ipv6MssAdjust e = 0" "AggregateGroup e = []"
    by (simp_all add: other_modes_zero_def)
  define l2 where "l2 =
    \<lparr>om_LldpEnabled = YesNo u (LldpEnabled e), om_LldpProfile = LldpProfile e,
     om_NetflowProfile = NetflowProfile e,
     om_Subinterface = raw_lookup (raw e) ''l2subinterface''\<rparr>"
  have sel: "om_LldpEnabled l2 = YesNo u (LldpEnabled e)" "om_LldpProfile l2 = LldpProfile e"
    "om_NetflowProfile l2 = NetflowProfile e"
    "om_Subinterface l2 = raw_lookup (raw e) ''l2subinterface''"
    by (simp_all add: l2_def)
  have ans: "v2_ModeL3 (Answer_v2 \<lparr>Answer_v2 = specify_v2 u e\<rparr>) = None"
    "v2_ModeL2 (Answer_v2 \<lparr>Answer_v2 = specify_v2 u e\<rparr>) = Some l2"
    "v2_Name (Answer_v2 \<lparr>Answer_v2 = specify_v2 u e\<rparr>) = Name e"
    "v2_LinkSpeed (Answer_v2 \<lparr>Answer_v2 = specify_v2 u e\<rparr>) = LinkSpeed e"
    "v2_LinkDuplex (Answer_v2 \<lparr>Answer_v2 = specify_v2 u e\<rparr>) = LinkDuplex e"
    "v2_LinkState (Answer_v2 \<lparr>Answer_v2 = specify_v2 u e\<rparr>) = LinkState e"
    "v2_Comment (Answer_v2 \<lparr>Answer_v2 = specify_v2 u e\<rparr>) = Comment e"
    by (cases "raw_lookup (raw e) ''l2subinterface''";
        simp add: specify_v2_def Let_def mode l2_def entry_v2_zero_def)+
  show ?thesis
    unfolding Normalize_v2_layer2 [OF ans(1) ans(2)] ans sel r
    by (rule Entry.equality) (simp_all add: Entry_zero_def mode bool z)
qed

lemma roundtrip_v2_vwire:
  assumes bool: "\<forall>b. AsBool u (YesNo u b) = b"
    and mode: "Mode e = ''virtual-wire''"
    and zero: "other_modes_zero e"
    and frag: "fragments_per_mode e"
  shows "Normalize_v2 u \<lparr>Answer_v2 = specify_v2 u e\<rparr> = e"
proof -
  from frag mode have
    "case raw e of None \<Rightarrow> True | Some m \<Rightarrow> m \<noteq> Map.empty \<and> dom m \<subseteq> {}"
    by (simp add: fragments_per_mode_def mode_fragments_def split: option.splits)
  then have r: "raw e = None" by (rule raw_none_roundtrip)
  from zero mode have z: "StaticIps e = []" "\<not> EnableDhcp e" "\<not> CreateDhcpDefaultRoute e"
    "DhcpDefaultRouteMetric e = 0" "\<not> Ipv6Enabled e" "ManagementProfile e = []" "Mtu e = 0"
    "\<not> AdjustTcpMss e" "Ipv4MssAdjust e = 0" "Ipv6MssAdjust e = 0" "AggregateGroup e = []"
    by (simp_all add: other_modes_zero_def)
  define vw where "vw =
    \<lparr>om_LldpEnabled = YesNo u (LldpEnabled e), om_LldpProfile = LldpProfile e,
     om_NetflowProfile = NetflowProfile e, om_Subinterface = None\<rparr>"
  have sel: "om_LldpEnabled vw = YesNo u (LldpEnabled e)" "om_LldpProfile vw = LldpProfile e"
    "om_NetflowProfile vw = NetflowProfile e"
    by (simp_all add: vw_def)
  have ans: "v2_ModeL3 (Answer_v2 \<lparr>Answer_v2 = specify_v2 u e\<rparr>) = None"
    "v2_ModeL2 (Answer_v2 \<lparr>Answer_v2 = specify_v2 u e\<rparr>) = None"
    "v2_ModeVwire (Answer_v2 \<lparr>Answer_v2 = specify_v2 u e\<rparr>) = Some vw"
    "v2_Name (Answer_v2 \<lparr>Answer_v2 = specify_v2 u e\<rparr>) = Name e"
    "v2_LinkSpeed (Answer_v2 \<lparr>Answer_v2 = specify_v2 u e\<rparr>) = LinkSpeed e"
    "v2_LinkDuplex (Answer_v2 \<lparr>Answer_v2 = specify_v2 u e\<rparr>) = LinkDuplex e"
    "v2_LinkState (Answer_v2 \<lparr>Answer_v2 = specify_v2 u e\<rparr>) = LinkState e"
    "v2_Comment (Answer_v2 \<lparr>Answer_v2 = specify_v2 u e\<rparr>) = Comment e"
    by (simp_all add: specify_v2_def Let_def mode vw_def entry_v2_zero_def)
  show ?thesis
    unfolding Normalize_v2_vwire [OF ans(1) ans(2) ans(3)] ans sel
    by (rule Entry.equality) (simp_all add: Entry_zero_def mode bool z r)
qed

lemma roundtrip_v2_empty_modes:
  assumes mode: "Mode e = ''tap'' \<or> Mode e = ''ha'' \<or> Mode e = ''decrypt-mirror'' \<or>
                 Mode e = ''aggregate-group''"
    and zero: "other_modes_zero e"
    and frag: "fragments_per_mode e"
    and agg: "AggregateGroup e = []"
  shows "Normalize_v2 u \<lparr>Answer_v2 = specify_v2 u e\<rparr> = e"
proof -
  from frag mode have
    "case raw e of None \<Rightarrow> True | Some m \<Rightarrow> m \<noteq> Map.empty \<and> dom m \<subseteq> {}"
    by (auto simp add: fragments_per_mode_def mode_fragments_def split: option.splits)
  then have r: "raw e = None" by (rule raw_none_roundtrip)
  from mode have m3: "Mode e \<noteq> ''layer3''" "Mode e \<noteq> ''layer2''" "Mode e \<noteq> ''virtual-wire''"
    by auto
  with zero have z: "StaticIps e = []" "\<not> EnableDhcp e" "\<not> CreateDhcpDefaultRoute e"
    "DhcpDefaultRouteMetric e = 0" "\<not> Ipv6Enabled e" "ManagementProfile e = []" "Mtu e = 0"
    "\<not> AdjustTcpMss e" "Ipv4MssAdjust e = 0" "Ipv6MssAdjust e = 0"
    "\<not> LldpEnabled e" "LldpProfile e = []" "NetflowProfile e = []"
    by (simp_all add: other_modes_zero_def)
  have ans: "v2_ModeL3 (Answer_v2 \<lparr>Answer_v2 = specify_v2 u e\<rparr>) = None"
    "v2_ModeL2 (Answer_v2 \<lparr>Answer_v2 = specify_v2 u e\<rparr>) = None"
    "v2_ModeVwire (Answer_v2 \<lparr>Answer_v2 = specify_v2 u e\<rparr>) = None"
    "v2_Name (Answer_v2 \<lparr>Answer_v2 = specify_v2 u e\<rparr>) = Name e"
    "v2_LinkSpeed (Answer_v2 \<lparr>Answer_v2 = specify_v2 u e\<rparr>) = LinkSpeed e"
    "v2_LinkDuplex (Answer_v2 \<lparr>Answer_v2 = specify_v2 u e\<rparr>) = LinkDuplex e"
    "v2_LinkState (Answer_v2 \<lparr>Answer_v2 = specify_v2 u e\<rparr>) = LinkState e"
    "v2_Comment (Answer_v2 \<lparr>Answer_v2 = specify_v2 u e\<rparr>) = Comment e"
    using mode by (auto simp add: specify_v2_def Let_def entry_v2_zero_def)
  have md: "(if v2_TapMode (Answer_v2 \<lparr>Answer_v2 = specify_v2 u e\<rparr>) \<noteq> None then ''tap''
       else if v2_HaMode (Answer_v2 \<lparr>Answer_v2 = specify_v2 u e\<rparr>) \<noteq> None then ''ha''
       else if v2_DecryptMirrorMode (Answer_v2 \<lparr>Answer_v2 = specify_v2 u e\<rparr>) \<noteq> None
         then ''decrypt-mirror''
       else if v2_AggregateGroupMode (Answer_v2 \<lparr>Answer_v2 = specify_v2 u e\<rparr>) \<noteq> None
         then ''aggregate-group''
       else []) = Mode e"
    using mode by (auto simp add: specify_v2_def Let_def entry_v2_zero_def)
  show ?thesis
    unfolding Normalize_v2_empty_modes [OF ans(1) ans(2) ans(3)] md ans
    by (rule Entry.equality) (simp_all add: Entry_zero_def z r agg)
qed

text \<open>
  Neither \<^verbatim>\<open>Normalize\<close> assigns the field \<^verbatim>\<open>AggregateGroup\<close>, and neither \<^verbatim>\<open>specify\<close>
  reads it: the mode "aggregate-group" is written as an empty element, so the name of
  the group of an entry does not reach the device and is empty in every entry read.
\<close>

lemma AggregateGroup_not_read:
  "AggregateGroup (Normalize_v1 u c1) = [] \<and> AggregateGroup (Normalize_v2 u c2) = []"
proof
  show "AggregateGroup (Normalize_v1 u c1) = []"
    by (cases "v1_ModeL3 (Answer_v1 c1)"; cases "v1_ModeL2 (Answer_v1 c1)";
        cases "v1_ModeVwire (Answer_v1 c1)")
       (simp_all add: Normalize_v1_layer3 Normalize_v1_layer2 Normalize_v1_vwire
          Normalize_v1_empty_modes Entry_zero_def)
  show "AggregateGroup (Normalize_v2 u c2) = []"
    by (cases "v2_ModeL3 (Answer_v2 c2)"; cases "v2_ModeL2 (Answer_v2 c2)";
        cases "v2_ModeVwire (Answer_v2 c2)")
       (simp_all add: Normalize_v2_layer3 Normalize_v2_layer2 Normalize_v2_vwire
          Normalize_v2_empty_modes Entry_zero_def)
qed

text \<open>
  C1 (as stated, it fails): for every device version and every mode,
  \<^verbatim>\<open>Normalize(Specify(e)) == e\<close> for a normalized entry whose fields are populated per
  its mode.  The layer3 struct of version 1 has no field for the MSS adjustments: below
  7.1.0 a layer3 entry with \<^verbatim>\<open>Ipv4MssAdjust = 40\<close> comes back with \<^verbatim>\<open>Ipv4MssAdjust = 0\<close>.
\<close>

theorem roundtrip_v1_counterexample:
  "Mode mss_entry \<in> set modes \<and> other_modes_zero mss_entry \<and> fragments_per_mode mss_entry \<and>
   roundtrip sample_util version_6_1 mss_entry \<noteq> mss_entry"
proof -
  have "Ipv4MssAdjust (roundtrip sample_util version_6_1 mss_entry) = 0"
    by (simp add: roundtrip_def versioning_def Gte_def version_6_1_def Normalize_v1_layer3
        specify_v1_layer3 mss_entry_def named_def Entry_zero_def)
  moreover have "Ipv4MssAdjust mss_entry = 40"
    by (simp add: mss_entry_def named_def Entry_zero_def)
  ultimately have "roundtrip sample_util version_6_1 mss_entry \<noteq> mss_entry" by auto
  moreover have "Mode mss_entry \<in> set modes \<and> other_modes_zero mss_entry \<and>
      fragments_per_mode mss_entry"
    by (simp add: mss_entry_def named_def Entry_zero_def modes_def other_modes_zero_def
        fragments_per_mode_def)
  ultimately show ?thesis by simp
qed

text \<open>
  C1 (amended): take helpers with \<^verbatim>\<open>AsBool(YesNo(b)) == b\<close>, with
  \<^verbatim>\<open>EntToStr(StrToEnt(e.StaticIps)) == e.StaticIps\<close> for a layer3 entry, and with
  \<^verbatim>\<open>CleanRawXml\<close> leaving every fragment of \<open>e\<close> as it is.  For every device version and
  each of the seven modes, \<^verbatim>\<open>Normalize(Specify(e)) == e\<close> for every entry \<open>e\<close> whose fields
  of other modes are zero, whose map of fragments is nil or non-empty with keys of its
  mode only, whose \<^verbatim>\<open>AggregateGroup\<close> is empty, and, when the version is below 7.1.0,
  whose \<^verbatim>\<open>Ipv4MssAdjust\<close> and \<^verbatim>\<open>Ipv6MssAdjust\<close> are zero.
\<close>

theorem roundtrip_law:
  assumes bool: "\<forall>b. AsBool u (YesNo u b) = b"
    and ips: "Mode e = ''layer3'' \<longrightarrow> EntToStr u (StrToEnt u (StaticIps e)) = StaticIps e"
    and clean: "\<forall>k t. raw_lookup (raw e) k = Some t \<longrightarrow> CleanRawXml u t = t"
    and mode: "Mode e \<in> set modes"
    and zero: "other_modes_zero e"
    and frag: "fragments_per_mode e"
    and agg: "AggregateGroup e = []"
    and mss: "\<not> Gte v \<lparr>Major = 7, Minor = 1, Patch = 0, Suffix = []\<rparr> \<longrightarrow>
                Ipv4MssAdjust e = 0 \<and> Ipv6MssAdjust e = 0"
  shows "roundtrip u v e = e"
proof -
  from mode consider
      (l3) "Mode e = ''layer3''"
    | (l2) "Mode e = ''layer2''"
    | (vw) "Mode e = ''virtual-wire''"
    | (other) "Mode e = ''tap'' \<or> Mode e = ''ha'' \<or> Mode e = ''decrypt-mirror'' \<or>
               Mode e = ''aggregate-group''"
    by (auto simp add: modes_def)
  then have one: "Normalize_v1 u \<lparr>Answer_v1 = specify_v1 u e\<rparr> = e"
    if "Ipv4MssAdjust e = 0 \<and> Ipv6MssAdjust e = 0"
  proof cases
    case l3
    with ips have "EntToStr u (StrToEnt u (StaticIps e)) = StaticIps e" by simp
    from roundtrip_v1_layer3 [OF bool this clean l3 zero frag agg that] show ?thesis .
  next
    case l2
    from roundtrip_v1_layer2 [OF bool clean l2 zero frag] show ?thesis .
  next
    case vw
    from roundtrip_v1_vwire [OF bool vw zero frag] show ?thesis .
  next
    case other
    from roundtrip_v1_empty_modes [OF other zero frag agg] show ?thesis .
  qed
  from mode consider
      (l3) "Mode e = ''layer3''"
    | (l2) "Mode e = ''layer2''"
    | (vw) "Mode e = ''virtual-wire''"
    | (other) "Mode e = ''tap'' \<or> Mode e = ''ha'' \<or> Mode e = ''decrypt-mirror'' \<or>
               Mode e = ''aggregate-group''"
    by (auto simp add: modes_def)
  then have two: "Normalize_v2 u \<lparr>Answer_v2 = specify_v2 u e\<rparr> = e"
  proof cases
    case l3
    with ips have "EntToStr u (StrToEnt u (StaticIps e)) = StaticIps e" by simp
    from roundtrip_v2_layer3 [OF bool this clean l3 zero frag agg] show ?thesis .
  next
    case l2
    from roundtrip_v2_layer2 [OF bool clean l2 zero frag] show ?thesis .
  next
    case vw
    from roundtrip_v2_vwire [OF bool vw zero frag] show ?thesis .
  next
    case other
    from roundtrip_v2_empty_modes [OF other zero frag agg] show ?thesis .
  qed
  show ?thesis
  proof (cases "Gte v \<lparr>Major = 7, Minor = 1, Patch = 0, Suffix = []\<rparr>")
    case True
    then show ?thesis by (simp add: roundtrip_def versioning_def two)
  next
    case False
    with mss have "Ipv4MssAdjust e = 0 \<and> Ipv6MssAdjust e = 0" by simp
    from one [OF this] False show ?thesis by (simp add: roundtrip_def versioning_def)
  qed
qed

theorem roundtrip_law_witness:
  "Mode layer3_entry \<in> set modes \<and> other_modes_zero layer3_entry \<and>
   fragments_per_mode layer3_entry \<and>
   roundtrip sample_util version_8_0 layer3_entry = layer3_entry \<and>
   roundtrip sample_util version_6_1 (layer3_entry\<lparr>Ipv4MssAdjust := 0, Ipv6MssAdjust := 0\<rparr>)
     = layer3_entry\<lparr>Ipv4MssAdjust := 0, Ipv6MssAdjust := 0\<rparr>"
proof -
  have bool: "\<forall>b. AsBool sample_util (YesNo sample_util b) = b"
    by (simp add: sample_util_def)
  have ips: "\<And>e. Mode e = ''layer3'' \<longrightarrow>
      EntToStr sample_util (StrToEnt sample_util (StaticIps e)) = StaticIps e"
    by (simp add: sample_util_def)
  have clean: "\<And>e. \<forall>k t. raw_lookup (raw e) k = Some t \<longrightarrow> CleanRawXml sample_util t = t"
    by (simp add: sample_util_def)
  have mode: "Mode layer3_entry \<in> set modes"
    by (simp add: layer3_entry_def modes_def)
  have zero: "other_modes_zero layer3_entry"
    by (simp add: layer3_entry_def other_modes_zero_def)
  have frag: "fragments_per_mode layer3_entry"
    by (auto simp add: layer3_entry_def fragments_per_mode_def mode_fragments_def dom_def
        split: if_splits)
  have agg: "AggregateGroup layer3_entry = []"
    by (simp add: layer3_entry_def)
  have mss: "\<not> Gte version_8_0 \<lparr>Major = 7, Minor = 1, Patch = 0, Suffix = []\<rparr> \<longrightarrow>
      Ipv4MssAdjust layer3_entry = 0 \<and> Ipv6MssAdjust layer3_entry = 0"
    by (simp add: Gte_def version_8_0_def)
  have a: "roundtrip sample_util version_8_0 layer3_entry = layer3_entry"
    by (rule roundtrip_law [OF bool ips clean mode zero frag agg mss])
  have b: "roundtrip sample_util version_6_1 (layer3_entry\<lparr>Ipv4MssAdjust := 0, Ipv6MssAdjust := 0\<rparr>)
     = layer3_entry\<lparr>Ipv4MssAdjust := 0, Ipv6MssAdjust := 0\<rparr>"
    using mode zero frag agg
    by (intro roundtrip_law [OF bool ips clean])
       (simp_all add: other_modes_zero_def fragments_per_mode_def split: option.splits)
  from mode zero frag a b show ?thesis by simp
qed

end
